theory Spec2Isabelle
  imports Main "HOL-Library.Word"
begin

unbundle bit_operations_syntax

section \<open>Data model\<close>

text \<open>
  The program is one C++ file, \<^verbatim>\<open>src/main.cxx\<close>, that drives two external libraries:
  GLFW (window, input) and OpenGL (drawing). The embedding keeps the program's own
  functions as state transformers on a \<open>world\<close>; what the libraries and the operating
  system answer is read from an \<open>env\<close>.
\<close>

type_synonym c_int = "32 word"
  \<comment> \<open>C \<open>int\<close>, \<open>GLint\<close>, \<open>GLsizei\<close>; the program applies \<open>&\<close>, \<open>==\<close>, \<open>!\<close> and \<open>> 0\<close> to them.\<close>

type_synonym GLuint = nat
  \<comment> \<open>The name of a GL object; \<open>0\<close> names no object.\<close>

type_synonym window = nat
  \<comment> \<open>A non-null \<^verbatim>\<open>GLFWwindow*\<close>; \<^verbatim>\<open>nullptr\<close> is \<open>None\<close> of \<open>window option\<close>.\<close>

subsection \<open>Constants of the GLFW header\<close>

text \<open>
  \<^verbatim>\<open>GLFW/glfw3.h\<close> belongs to the GLFW library, not to this repository; these are the
  values GLFW 3 gives the names that \<^verbatim>\<open>keyCallback\<close> uses. An action is one of
  \<^verbatim>\<open>GLFW_RELEASE\<close>, \<^verbatim>\<open>GLFW_PRESS\<close> and \<^verbatim>\<open>GLFW_REPEAT\<close>; \<^verbatim>\<open>GLFW_KEY_UP\<close> is the key
  code of the up arrow, which the handler uses as a mask on the action.
\<close>

definition GLFW_RELEASE :: c_int where "GLFW_RELEASE = 0"
definition GLFW_PRESS :: c_int where "GLFW_PRESS = 1"
definition GLFW_REPEAT :: c_int where "GLFW_REPEAT = 2"
definition GLFW_KEY_Q :: c_int where "GLFW_KEY_Q = 81"
definition GLFW_KEY_W :: c_int where "GLFW_KEY_W = 87"
definition GLFW_KEY_UP :: c_int where "GLFW_KEY_UP = 265"
definition GLFW_KEY_F4 :: c_int where "GLFW_KEY_F4 = 293"
definition GLFW_MOD_CONTROL :: c_int where "GLFW_MOD_CONTROL = 2"
definition GLFW_MOD_ALT :: c_int where "GLFW_MOD_ALT = 4"

datatype hint =
    GLFW_CONTEXT_VERSION_MAJOR
  | GLFW_CONTEXT_VERSION_MINOR
  | GLFW_OPENGL_PROFILE
  | GLFW_DECORATED
  | GLFW_OPENGL_DEBUG_CONTEXT
  | GLFW_OPENGL_FORWARD_COMPAT

datatype hint_value = HintInt c_int | HintBool bool | GLFW_OPENGL_CORE_PROFILE

subsection \<open>GL enumerations\<close>

datatype shader_type = GL_VERTEX_SHADER | GL_FRAGMENT_SHADER
datatype pname = GL_LINK_STATUS | GL_INFO_LOG_LENGTH
datatype draw_mode = GL_TRIANGLES
datatype clear_mask = GL_COLOR_BUFFER_BIT

subsection \<open>The calls the program makes\<close>

datatype call =
    GlfwInit
  | GlfwSetErrorCallback
  | GlfwWindowHint hint hint_value
  | GlfwCreateWindow c_int c_int string
  | GlfwTerminate
  | GlfwMakeContextCurrent window
  | GladLoadGL
  | GlEnableDebugOutputSynchronous
  | GlDebugMessageCallbackARB
  | GlGetStringVersion
  | GlfwSwapInterval c_int
  | GlfwSetKeyCallback window
  | GlfwSetWindowShouldClose window bool
  | GlCreateShader shader_type
  | GlShaderSource GLuint string
  | GlCompileShader GLuint
  | GlCreateProgram
  | GlAttachShader GLuint GLuint
  | GlLinkProgram GLuint
  | GlGetProgramiv GLuint pname
  | GlGetProgramInfoLog GLuint c_int
  | GlGetShaderiv GLuint pname
  | GlGetShaderInfoLog GLuint c_int
  | GlDetachShader GLuint GLuint
  | GlDeleteShader GLuint
  | GlDeleteProgram GLuint
  | GlGenVertexArrays
  | GlBindVertexArray GLuint
  | GlDeleteVertexArrays GLuint
  | GlfwWindowShouldClose window
  | GlfwGetFramebufferSize window
  | GlViewport c_int c_int c_int c_int
  | GlClearColor
  | GlClear clear_mask
  | GlUseProgram GLuint
  | GlDrawArrays draw_mode c_int c_int
  | GlfwSwapBuffers window
  | GlfwPollEvents
  | GlfwDestroyWindow window

text \<open>
  \<open>GlClearColor\<close> stands for \<^verbatim>\<open>glClearColor(0.f, .5f, 1.f, 1.f)\<close>, the only call with
  floating-point arguments; they are constants. \<open>GlDeleteProgram\<close> is the delete call
  of the GL interface for program objects; the program has no call of it.
\<close>

fun isGL :: "call \<Rightarrow> bool" where
  "isGL GlfwInit = False"
| "isGL GlfwSetErrorCallback = False"
| "isGL (GlfwWindowHint h v) = False"
| "isGL (GlfwCreateWindow a b t) = False"
| "isGL GlfwTerminate = False"
| "isGL (GlfwMakeContextCurrent win) = False"
| "isGL (GlfwSwapInterval n) = False"
| "isGL (GlfwSetKeyCallback win) = False"
| "isGL (GlfwSetWindowShouldClose win b) = False"
| "isGL (GlfwWindowShouldClose win) = False"
| "isGL (GlfwGetFramebufferSize win) = False"
| "isGL (GlfwSwapBuffers win) = False"
| "isGL GlfwPollEvents = False"
| "isGL (GlfwDestroyWindow win) = False"
| "isGL c = True"

subsection \<open>The state of the process and of the two libraries\<close>

record shader_obj =
  kind :: shader_type
  source :: string
  compiled :: bool
  shaderLog :: string

record program_obj =
  linked :: bool
  programLog :: string

record world =
  calls :: "call list"              \<comment> \<open>library calls made so far, oldest first\<close>
  cerr :: "string list"             \<comment> \<open>lines written to \<^verbatim>\<open>std::cerr\<close>\<close>
  cout :: "string list"             \<comment> \<open>lines written to \<^verbatim>\<open>std::cout\<close>\<close>
  glfwUp :: bool                    \<comment> \<open>GLFW initialised and not terminated\<close>
  errorCallback :: bool             \<comment> \<open>\<^verbatim>\<open>errorCallbackGLFW\<close> installed\<close>
  windowOpen :: bool                \<comment> \<open>the window exists\<close>
  glContext :: bool                  \<comment> \<open>the window's GL context exists and is current\<close>
  keyHandler :: bool                \<comment> \<open>\<^verbatim>\<open>keyCallback\<close> installed on the window\<close>
  shouldClose :: bool               \<comment> \<open>the window's close flag\<close>
  nextName :: GLuint                \<comment> \<open>next unused shader or program name\<close>
  shaders :: "GLuint \<rightharpoonup> shader_obj"
  programs :: "GLuint \<rightharpoonup> program_obj"
  attached :: "(GLuint \<times> GLuint) list" \<comment> \<open>(program, shader)\<close>
  flagged :: "GLuint set"           \<comment> \<open>shaders flagged for deletion while attached\<close>
  nextVao :: GLuint
  vaos :: "GLuint set"

definition issue :: "call \<Rightarrow> world \<Rightarrow> world" where
  "issue c w = w\<lparr>calls := calls w @ [c]\<rparr>"

definition initialWorld :: world where
  "initialWorld =
     \<lparr>calls = [], cerr = [], cout = [], glfwUp = False, errorCallback = False,
      windowOpen = False, glContext = False, keyHandler = False, shouldClose = False,
      nextName = 1, shaders = Map.empty, programs = Map.empty, attached = [],
      flagged = {}, nextVao = 1, vaos = {}\<rparr>"

section \<open>The key handler\<close>

text \<open>
  \<^verbatim>\<open>glfwSetWindowShouldClose(window, value)\<close> stores \<open>value\<close> in the window's close flag.
\<close>

definition glfwSetWindowShouldClose :: "window \<Rightarrow> bool \<Rightarrow> world \<Rightarrow> world" where
  "glfwSetWindowShouldClose win v w =
     (issue (GlfwSetWindowShouldClose win v) w)\<lparr>shouldClose := v\<rparr>"

definition keyCallback :: "window \<Rightarrow> c_int \<Rightarrow> c_int \<Rightarrow> c_int \<Rightarrow> c_int \<Rightarrow> world \<Rightarrow> world" where
  "keyCallback win key scancode action mods w =
     (let keyUp = action AND GLFW_KEY_UP;
          keyQ = (key = GLFW_KEY_Q);
          keyW = (key = GLFW_KEY_W);
          keyF4 = (key = GLFW_KEY_F4);
          keyCtrl = mods AND GLFW_MOD_CONTROL;
          keyAlt = mods AND GLFW_MOD_ALT
      in if keyUp \<noteq> 0 \<and> ((keyCtrl \<noteq> 0 \<and> (keyQ \<or> keyW)) \<or> (keyAlt \<noteq> 0 \<and> keyF4))
         then glfwSetWindowShouldClose win True w
         else w)"

text \<open>
  The wording of the specification: a quit chord is control+Q, control+W or alt+F4, and the
  handler reacts to a press of it. Control is bit 1 and alt is bit 2 of GLFW's modifier
  bit field.
\<close>

definition quitChordPress :: "c_int \<Rightarrow> c_int \<Rightarrow> c_int \<Rightarrow> bool" where
  "quitChordPress key action mods =
     (action = GLFW_PRESS \<and>
      ((bit mods 1 \<and> (key = GLFW_KEY_Q \<or> key = GLFW_KEY_W)) \<or> (bit mods 2 \<and> key = GLFW_KEY_F4)))"

section \<open>Reading a file\<close>

text \<open>
  The file system is \<open>string \<Rightarrow> string option\<close>: \<open>None\<close> for a path that
  \<^verbatim>\<open>std::ifstream\<close> cannot open, otherwise the characters the stream delivers.
\<close>

definition NL :: char where "NL = CHR 0x0A"
definition CR :: char where "CR = CHR 0x0D"

text \<open>
  \<^verbatim>\<open>std::getline(streamIn, s)\<close> on the rest of the stream: at end of input nothing is
  extracted and the stream fails (\<open>None\<close>); otherwise the characters up to the next
  newline are the line, and the newline, when there is one, is consumed and dropped.
\<close>

definition getline :: "string \<Rightarrow> (string \<times> string) option" where
  "getline cs =
     (if cs = [] then None
      else Some (takeWhile (\<lambda>c. c \<noteq> NL) cs, drop 1 (dropWhile (\<lambda>c. c \<noteq> NL) cs)))"

function readLoop :: "string \<Rightarrow> string \<Rightarrow> string" where
  "readLoop cs streamOut =
     (case getline cs of
        None \<Rightarrow> streamOut
      | Some (s, rest) \<Rightarrow> readLoop rest (streamOut @ s @ [NL]))"
  by pat_completeness auto
termination
proof (relation "measure (\<lambda>(cs, streamOut). length cs)")
  show "wf (measure (\<lambda>(cs, streamOut). length cs))" by simp
next
  fix cs streamOut :: string and x s rest
  assume "getline cs = Some x" and "(s, rest) = x"
  then have ne: "cs \<noteq> []" and r: "rest = drop 1 (dropWhile (\<lambda>c. c \<noteq> NL) cs)"
    by (auto simp: getline_def split: if_splits)
  have "length (dropWhile (\<lambda>c. c \<noteq> NL) cs) \<le> length cs"
    by (rule length_dropWhile_le)
  moreover have "dropWhile (\<lambda>c. c \<noteq> NL) cs = cs \<Longrightarrow> length (drop 1 cs) < length cs"
    using ne by (cases cs) auto
  ultimately have "length rest < length cs"
    using ne r by (cases "dropWhile (\<lambda>c. c \<noteq> NL) cs") auto
  then show "((rest, streamOut @ s @ [NL]), (cs, streamOut)) \<in> measure (\<lambda>(cs, streamOut). length cs)"
    by simp
qed

declare readLoop.simps [simp del]

definition readFile :: "(string \<Rightarrow> string option) \<Rightarrow> string \<Rightarrow> string" where
  "readFile files fileName =
     (case files fileName of
        None \<Rightarrow> []
      | Some content \<Rightarrow> readLoop content [])"

text \<open>
  The lines of a text, as the specification speaks of them: the stretches between
  newlines; a newline at the very end does not begin another line. \<open>cur\<close> is the
  line read so far.
\<close>

fun fileLines :: "string \<Rightarrow> string \<Rightarrow> string list" where
  "fileLines cur [] = (if cur = [] then [] else [cur])"
| "fileLines cur (c # cs) =
     (if c = NL then cur # fileLines [] cs else fileLines (cur @ [c]) cs)"

definition withFinalNewline :: "string \<Rightarrow> string" where
  "withFinalNewline cs = (if cs = [] then [] else if last cs = NL then cs else cs @ [NL])"

section \<open>What the outside world answers\<close>

datatype event = CloseRequest | KeyEvent c_int c_int c_int c_int
  \<comment> \<open>the close request of the window system; a key event: key, scancode, action, mods\<close>

record frame_input =
  fbWidth :: c_int
  fbHeight :: c_int
  events :: "event list"    \<comment> \<open>what \<^verbatim>\<open>glfwPollEvents\<close> finds pending in this frame\<close>

record env =
  DEBUG :: bool                      \<comment> \<open>built with \<^verbatim>\<open>DEBUG\<close> defined\<close>
  APPLE :: bool                      \<comment> \<open>built with \<^verbatim>\<open>__APPLE__\<close> defined\<close>
  glfwInitResult :: bool
  createWindowResult :: "string + window"
    \<comment> \<open>\<open>Inl\<close>: no window, with the description GLFW gives its error callback\<close>
  GLAD_GL_ARB_debug_output :: bool
  cplusplus :: string
  glVersion :: string
  files :: "string \<Rightarrow> string option"
  compileOk :: "shader_type \<Rightarrow> string \<Rightarrow> bool"
  compileLog :: "shader_type \<Rightarrow> string \<Rightarrow> string"
  linkOk :: "(shader_type \<times> string) list \<Rightarrow> bool"
  linkLog :: "(shader_type \<times> string) list \<Rightarrow> string"
  frames :: "frame_input list"
    \<comment> \<open>the frames for which the outside world is described; the loop may outlive them\<close>

section \<open>Debug output\<close>

definition DEBUG_ERROR_LINE :: "env \<Rightarrow> string \<Rightarrow> world \<Rightarrow> world" where
  "DEBUG_ERROR_LINE e s w = (if DEBUG e then w\<lparr>cerr := cerr w @ [s]\<rparr> else w)"

definition DEBUG_LOG_LINE :: "env \<Rightarrow> string \<Rightarrow> world \<Rightarrow> world" where
  "DEBUG_LOG_LINE e s w = (if DEBUG e then w\<lparr>cout := cout w @ [s]\<rparr> else w)"

definition errorCallbackGLFW :: "env \<Rightarrow> string \<Rightarrow> world \<Rightarrow> world" where
  "errorCallbackGLFW e description w = DEBUG_ERROR_LINE e (''GLFW error: '' @ description) w"

section \<open>The library functions, as the program uses them\<close>

subsection \<open>GLFW\<close>

definition glfwInit :: "env \<Rightarrow> world \<Rightarrow> bool \<times> world" where
  "glfwInit e w = (glfwInitResult e, (issue GlfwInit w)\<lparr>glfwUp := glfwInitResult e\<rparr>)"

definition glfwSetErrorCallback :: "world \<Rightarrow> world" where
  "glfwSetErrorCallback w = (issue GlfwSetErrorCallback w)\<lparr>errorCallback := True\<rparr>"

definition glfwWindowHint :: "hint \<Rightarrow> hint_value \<Rightarrow> world \<Rightarrow> world" where
  "glfwWindowHint h v w = issue (GlfwWindowHint h v) w"

text \<open>A failed \<^verbatim>\<open>glfwCreateWindow\<close> reports to the error callback, when one is installed.\<close>

definition glfwCreateWindow :: "env \<Rightarrow> c_int \<Rightarrow> c_int \<Rightarrow> string \<Rightarrow> world \<Rightarrow> window option \<times> world" where
  "glfwCreateWindow e width height title w =
     (let w1 = issue (GlfwCreateWindow width height title) w
      in case createWindowResult e of
           Inl description \<Rightarrow>
             (None, if errorCallback w1 then errorCallbackGLFW e description w1 else w1)
         | Inr win \<Rightarrow> (Some win, w1\<lparr>windowOpen := True, shouldClose := False\<rparr>))"

definition glfwMakeContextCurrent :: "window \<Rightarrow> world \<Rightarrow> world" where
  "glfwMakeContextCurrent win w = (issue (GlfwMakeContextCurrent win) w)\<lparr>glContext := True\<rparr>"

text \<open>
  The window is created with no context to share objects with (\<^verbatim>\<open>windowShare\<close> is
  \<^verbatim>\<open>nullptr\<close>). Destroying the window destroys its context, and with the context every
  GL object made in it: shaders, programs and vertex arrays.
\<close>

definition destroyContext :: "world \<Rightarrow> world" where
  "destroyContext w =
     w\<lparr>glContext := False, shaders := Map.empty, programs := Map.empty, attached := [],
       flagged := {}, vaos := {}\<rparr>"

definition glfwDestroyWindow :: "window \<Rightarrow> world \<Rightarrow> world" where
  "glfwDestroyWindow win w =
     destroyContext ((issue (GlfwDestroyWindow win) w)\<lparr>windowOpen := False\<rparr>)"

text \<open>\<^verbatim>\<open>glfwTerminate\<close> destroys the windows that are left, and their contexts.\<close>

definition glfwTerminate :: "world \<Rightarrow> world" where
  "glfwTerminate w =
     destroyContext ((issue GlfwTerminate w)\<lparr>glfwUp := False, windowOpen := False\<rparr>)"

definition glfwSetKeyCallback :: "window \<Rightarrow> world \<Rightarrow> world" where
  "glfwSetKeyCallback win w = (issue (GlfwSetKeyCallback win) w)\<lparr>keyHandler := True\<rparr>"

definition glfwWindowShouldClose :: "window \<Rightarrow> world \<Rightarrow> bool \<times> world" where
  "glfwWindowShouldClose win w = (shouldClose w, issue (GlfwWindowShouldClose win) w)"

definition glfwGetFramebufferSize :: "window \<Rightarrow> frame_input \<Rightarrow> world \<Rightarrow> (c_int \<times> c_int) \<times> world" where
  "glfwGetFramebufferSize win f w = ((fbWidth f, fbHeight f), issue (GlfwGetFramebufferSize win) w)"

text \<open>
  \<^verbatim>\<open>glfwPollEvents\<close> handles the pending events in order, on the calling thread: a close
  request sets the close flag; a key event goes to the installed key callback.
\<close>

fun dispatch :: "window \<Rightarrow> event \<Rightarrow> world \<Rightarrow> world" where
  "dispatch win CloseRequest w = w\<lparr>shouldClose := True\<rparr>"
| "dispatch win (KeyEvent key scancode action mods) w =
     (if keyHandler w then keyCallback win key scancode action mods w else w)"

definition glfwPollEvents :: "window \<Rightarrow> event list \<Rightarrow> world \<Rightarrow> world" where
  "glfwPollEvents win evs w = fold (dispatch win) evs (issue GlfwPollEvents w)"

subsection \<open>OpenGL objects\<close>

text \<open>
  Shader and program names come from one counter, vertex-array names from another: GL
  promises only that a new name is unused and not zero. An object is there until a delete
  call removes it or its context is destroyed. The program makes its GL calls while the
  context is current, all but the \<^verbatim>\<open>glDeleteVertexArrays\<close> of \<^verbatim>\<open>cleanUp\<close>, which
  follows \<^verbatim>\<open>glfwDestroyWindow\<close>: that is the one call modelled without a context too.
\<close>

definition glCreateShader :: "shader_type \<Rightarrow> world \<Rightarrow> GLuint \<times> world" where
  "glCreateShader t w =
     (let n = nextName w
      in (n, (issue (GlCreateShader t) w)
               \<lparr>nextName := n + 1,
                shaders := (shaders w)(n \<mapsto> \<lparr>kind = t, source = [], compiled = False, shaderLog = []\<rparr>)\<rparr>))"

definition c_str :: "string \<Rightarrow> string" where
  "c_str s = takeWhile (\<lambda>c. c \<noteq> CHR 0x00) s"

text \<open>
  A call that names an object changes that object when it exists and nothing otherwise:
  \<open>m(n := map_option f (m n))\<close> is \<open>m\<close> where \<open>m n = None\<close>.
\<close>

definition glShaderSource :: "GLuint \<Rightarrow> string \<Rightarrow> world \<Rightarrow> world" where
  "glShaderSource sh src w =
     (issue (GlShaderSource sh src) w)
       \<lparr>shaders := (shaders w)(sh := map_option (\<lambda>obj. obj\<lparr>source := src\<rparr>) (shaders w sh))\<rparr>"

definition glCompileShader :: "env \<Rightarrow> GLuint \<Rightarrow> world \<Rightarrow> world" where
  "glCompileShader e sh w =
     (issue (GlCompileShader sh) w)
       \<lparr>shaders := (shaders w)(sh :=
          map_option (\<lambda>obj. obj\<lparr>compiled := compileOk e (kind obj) (source obj),
                                shaderLog := compileLog e (kind obj) (source obj)\<rparr>)
            (shaders w sh))\<rparr>"

definition glCreateProgram :: "world \<Rightarrow> GLuint \<times> world" where
  "glCreateProgram w =
     (let n = nextName w
      in (n, (issue GlCreateProgram w)
               \<lparr>nextName := n + 1,
                programs := (programs w)(n \<mapsto> \<lparr>linked = False, programLog = []\<rparr>)\<rparr>))"

definition glAttachShader :: "GLuint \<Rightarrow> GLuint \<Rightarrow> world \<Rightarrow> world" where
  "glAttachShader p sh w =
     (issue (GlAttachShader p sh) w)
       \<lparr>attached := (if (p, sh) \<in> set (attached w) then attached w else attached w @ [(p, sh)])\<rparr>"

text \<open>
  Linking succeeds when every attached shader has been compiled successfully and the
  implementation accepts the combination; GL makes a failed compilation a failed link.
\<close>

definition attachedObjs :: "GLuint \<Rightarrow> world \<Rightarrow> shader_obj list" where
  "attachedObjs p w =
     List.map_filter (\<lambda>(q, sh). if q = p then shaders w sh else None) (attached w)"

definition glLinkProgram :: "env \<Rightarrow> GLuint \<Rightarrow> world \<Rightarrow> world" where
  "glLinkProgram e p w =
     (let objs = attachedObjs p w;
          stages = map (\<lambda>obj. (kind obj, source obj)) objs
      in (issue (GlLinkProgram p) w)
           \<lparr>programs := (programs w)(p :=
              map_option (\<lambda>pobj. \<lparr>linked = (list_all compiled objs \<and> linkOk e stages),
                                    programLog = linkLog e stages\<rparr>)
                (programs w p))\<rparr>)"

text \<open>
  The length GL reports for an info log counts the terminating NUL and is \<open>0\<close> when
  there is no log. \<open>readInfoLog n log\<close> is the \<^verbatim>\<open>std::string\<close> after
  \<^verbatim>\<open>resize(n)\<close> and \<^verbatim>\<open>glGet...InfoLog(obj, n, &n, data())\<close>: at most \<open>n - 1\<close>
  characters of the log, then NUL up to the size \<open>n\<close>.
\<close>

definition infoLogLength :: "string \<Rightarrow> c_int" where
  "infoLogLength log = (if log = [] then 0 else of_nat (length log + 1))"

definition readInfoLog :: "c_int \<Rightarrow> string \<Rightarrow> string" where
  "readInfoLog bufSize log =
     (let n = unat bufSize; k = min (n - 1) (length log)
      in take k log @ replicate (n - k) (CHR 0x00))"

definition glGetProgramiv :: "GLuint \<Rightarrow> pname \<Rightarrow> world \<Rightarrow> c_int \<times> world" where
  "glGetProgramiv p pn w =
     ((case programs w p of
         None \<Rightarrow> 0
       | Some pobj \<Rightarrow>
           (case pn of
              GL_LINK_STATUS \<Rightarrow> if linked pobj then 1 else 0
            | GL_INFO_LOG_LENGTH \<Rightarrow> infoLogLength (programLog pobj))),
      issue (GlGetProgramiv p pn) w)"

definition glGetProgramInfoLog :: "GLuint \<Rightarrow> c_int \<Rightarrow> world \<Rightarrow> string \<times> world" where
  "glGetProgramInfoLog p bufSize w =
     (readInfoLog bufSize (case programs w p of None \<Rightarrow> [] | Some pobj \<Rightarrow> programLog pobj),
      issue (GlGetProgramInfoLog p bufSize) w)"

definition glGetShaderInfoLogLength :: "GLuint \<Rightarrow> world \<Rightarrow> c_int \<times> world" where
  "glGetShaderInfoLogLength sh w =
     ((case shaders w sh of None \<Rightarrow> 0 | Some obj \<Rightarrow> infoLogLength (shaderLog obj)),
      issue (GlGetShaderiv sh GL_INFO_LOG_LENGTH) w)"

definition glGetShaderInfoLog :: "GLuint \<Rightarrow> c_int \<Rightarrow> world \<Rightarrow> string \<times> world" where
  "glGetShaderInfoLog sh bufSize w =
     (readInfoLog bufSize (case shaders w sh of None \<Rightarrow> [] | Some obj \<Rightarrow> shaderLog obj),
      issue (GlGetShaderInfoLog sh bufSize) w)"

text \<open>
  A shader that is deleted while attached is only flagged; it goes when it is detached
  from the last program.
\<close>

definition glDetachShader :: "GLuint \<Rightarrow> GLuint \<Rightarrow> world \<Rightarrow> world" where
  "glDetachShader p sh w =
     (let rest = removeAll (p, sh) (attached w);
          gone = (sh \<in> flagged w \<and> sh \<notin> snd ` set rest)
      in (issue (GlDetachShader p sh) w)
           \<lparr>attached := rest,
            shaders := (if gone then (shaders w)(sh := None) else shaders w),
            flagged := (if gone then flagged w - {sh} else flagged w)\<rparr>)"

definition glDeleteShader :: "GLuint \<Rightarrow> world \<Rightarrow> world" where
  "glDeleteShader sh w =
     (let inUse = (sh \<in> snd ` set (attached w))
      in (issue (GlDeleteShader sh) w)
           \<lparr>shaders := (if inUse then shaders w else (shaders w)(sh := None)),
            flagged := (if inUse \<and> sh \<in> dom (shaders w) then insert sh (flagged w)
                        else flagged w)\<rparr>)"

definition glGenVertexArrays :: "world \<Rightarrow> GLuint \<times> world" where
  "glGenVertexArrays w =
     (let n = nextVao w
      in (n, (issue GlGenVertexArrays w)\<lparr>nextVao := n + 1, vaos := insert n (vaos w)\<rparr>))"

definition glBindVertexArray :: "GLuint \<Rightarrow> world \<Rightarrow> world" where
  "glBindVertexArray v w = issue (GlBindVertexArray v) w"

text \<open>With no current context the call has no object to act on.\<close>

definition glDeleteVertexArrays :: "GLuint \<Rightarrow> world \<Rightarrow> world" where
  "glDeleteVertexArrays v w =
     (issue (GlDeleteVertexArrays v) w)
       \<lparr>vaos := (if glContext w then vaos w - {v} else vaos w)\<rparr>"

section \<open>The program\<close>

subsection \<open>Window and context\<close>

definition initializeWindow :: "env \<Rightarrow> world \<Rightarrow> window option \<times> world" where
  "initializeWindow e w =
     (let (ok, w1) = glfwInit e w
      in if \<not> ok then (None, DEBUG_ERROR_LINE e ''GLFW error: Initialization failed'' w1)
         else
           let w2 = (if DEBUG e then glfwSetErrorCallback w1 else w1);
               windowWidth = 640;
               windowHeight = 480;
               windowTitle = ''3D Flying Camera Test'';
               windowGLMajor = 3;
               windowGLMinor = 3;
               w3 = glfwWindowHint GLFW_CONTEXT_VERSION_MAJOR (HintInt windowGLMajor) w2;
               w4 = glfwWindowHint GLFW_CONTEXT_VERSION_MINOR (HintInt windowGLMinor) w3;
               w5 = glfwWindowHint GLFW_OPENGL_PROFILE GLFW_OPENGL_CORE_PROFILE w4;
               w6 = glfwWindowHint GLFW_DECORATED (HintBool True) w5;
               w7 = (if DEBUG e then glfwWindowHint GLFW_OPENGL_DEBUG_CONTEXT (HintBool True) w6 else w6);
               w8 = (if APPLE e then glfwWindowHint GLFW_OPENGL_FORWARD_COMPAT (HintBool True) w7 else w7);
               (win, w9) = glfwCreateWindow e windowWidth windowHeight windowTitle w8
           in case win of
                None \<Rightarrow> (None, glfwTerminate w9)
              | Some wnd \<Rightarrow>
                  let w10 = glfwMakeContextCurrent wnd w9;
                      w11 = issue GladLoadGL w10;
                      w12 = (if DEBUG e
                             then (if GLAD_GL_ARB_debug_output e
                                   then issue GlDebugMessageCallbackARB
                                          (issue GlEnableDebugOutputSynchronous
                                             (DEBUG_LOG_LINE e ''GL extension GL_ARB_debug_output available'' w11))
                                   else DEBUG_LOG_LINE e ''GL extension GL_ARB_debug_output unavailable'' w11)
                             else w11);
                      w13 = DEBUG_LOG_LINE e (''C++ version: '' @ cplusplus e) w12;
                      w14 = (if DEBUG e
                             then DEBUG_LOG_LINE e (''OpenGL version: '' @ glVersion e) (issue GlGetStringVersion w13)
                             else w13);
                      w15 = issue (GlfwSwapInterval 1) w14;
                      w16 = glfwSetKeyCallback wnd w15
                  in (Some wnd, w16))"

subsection \<open>Shaders and the program object\<close>

datatype exn = RuntimeError string

definition createShader :: "env \<Rightarrow> shader_type \<Rightarrow> string \<Rightarrow> world \<Rightarrow> GLuint \<times> world" where
  "createShader e t src w =
     (let (shader, w1) = glCreateShader t w;
          w2 = glShaderSource shader (c_str src) w1;
          w3 = glCompileShader e shader w2
      in (shader, w3))"

text \<open>The block of \<^verbatim>\<open>createProgram\<close> that is compiled only with \<^verbatim>\<open>DEBUG\<close>.\<close>

definition reportShaderLog :: "env \<Rightarrow> string \<Rightarrow> GLuint \<Rightarrow> world \<Rightarrow> world" where
  "reportShaderLog e label shader w =
     (let (logLength, w1) = glGetShaderInfoLogLength shader w
      in if 0 <s logLength
         then (let (shaderText, w2) = glGetShaderInfoLog shader logLength w1
               in DEBUG_ERROR_LINE e (label @ shaderText) w2)
         else w1)"

definition reportLinkFailure :: "env \<Rightarrow> GLuint \<Rightarrow> GLuint \<Rightarrow> GLuint \<Rightarrow> world \<Rightarrow> world" where
  "reportLinkFailure e prog vertexShader fragmentShader w =
     (let (programLogLength, w1) = glGetProgramiv prog GL_INFO_LOG_LENGTH w;
          (programText, w2) = glGetProgramInfoLog prog programLogLength w1;
          w3 = DEBUG_ERROR_LINE e (''GL program error: '' @ programText) w2;
          w4 = reportShaderLog e ''GL vertex shader error: '' vertexShader w3;
          w5 = reportShaderLog e ''GL fragment shader error: '' fragmentShader w4
      in w5)"

definition createProgram :: "env \<Rightarrow> string \<Rightarrow> string \<Rightarrow> world \<Rightarrow> (exn + GLuint) \<times> world" where
  "createProgram e vertexSource fragmentSource w =
     (let (vertexShader, w1) = createShader e GL_VERTEX_SHADER vertexSource w;
          (fragmentShader, w2) = createShader e GL_FRAGMENT_SHADER fragmentSource w1;
          (prog, w3) = glCreateProgram w2;
          w4 = glAttachShader prog vertexShader w3;
          w5 = glAttachShader prog fragmentShader w4;
          w6 = glLinkProgram e prog w5;
          (status, w7) = glGetProgramiv prog GL_LINK_STATUS w6;
          w8 = (if DEBUG e \<and> status = 0
                then reportLinkFailure e prog vertexShader fragmentShader w7
                else w7);
          w9 = glDetachShader prog vertexShader w8;
          w10 = glDetachShader prog fragmentShader w9;
          w11 = glDeleteShader vertexShader w10;
          w12 = glDeleteShader fragmentShader w11
      in if status = 0
         then (Inl (RuntimeError ''Error creating GL program''), w12)
         else (Inr prog, w12))"

record ProgramData =
  program :: GLuint
  vao :: GLuint
  vertexCount :: c_int

definition initializeGL :: "env \<Rightarrow> world \<Rightarrow> (exn + ProgramData) \<times> world" where
  "initializeGL e w =
     (let vertexSource = readFile (files e) ''shaders/main.vert'';
          fragmentSource = readFile (files e) ''shaders/main.frag''
      in case createProgram e vertexSource fragmentSource w of
           (Inl x, w1) \<Rightarrow> (Inl x, w1)
         | (Inr prog, w1) \<Rightarrow>
             let (v, w2) = glGenVertexArrays w1;
                 w3 = glBindVertexArray v w2;
                 w4 = glBindVertexArray 0 w3
             in (Inr \<lparr>program = prog, vao = v, vertexCount = 3\<rparr>, w4))"

subsection \<open>The frame loop\<close>

text \<open>One pass through the body of the \<^verbatim>\<open>while\<close> loop of \<^verbatim>\<open>mainLoop\<close>.\<close>

definition frame :: "window \<Rightarrow> ProgramData \<Rightarrow> frame_input \<Rightarrow> world \<Rightarrow> world" where
  "frame win programData f w =
     (let ((width, height), w1) = glfwGetFramebufferSize win f w;
          w2 = issue (GlViewport 0 0 width height) w1;
          w3 = issue GlClearColor w2;
          w4 = issue (GlClear GL_COLOR_BUFFER_BIT) w3;
          w5 = issue (GlUseProgram (program programData)) w4;
          w6 = glBindVertexArray (vao programData) w5;
          w7 = issue (GlDrawArrays GL_TRIANGLES 0 (vertexCount programData)) w6;
          w8 = issue (GlfwSwapBuffers win) w7;
          w9 = glfwPollEvents win (events f) w8
      in w9)"

text \<open>
  The loop runs as long as the close flag is clear, possibly for ever. The list holds what
  the outside world does in the coming frames; when it runs out with the flag still clear,
  the result is \<open>Unfinished\<close>: the loop has not returned.
\<close>

datatype loop_result = Returned world | Unfinished world

fun mainLoop :: "window \<Rightarrow> ProgramData \<Rightarrow> frame_input list \<Rightarrow> world \<Rightarrow> loop_result" where
  "mainLoop win programData [] w =
     (let (closing, w1) = glfwWindowShouldClose win w
      in if closing then Returned w1 else Unfinished w1)"
| "mainLoop win programData (f # fs) w =
     (let (closing, w1) = glfwWindowShouldClose win w
      in if closing then Returned w1
         else mainLoop win programData fs (frame win programData f w1))"

subsection \<open>Teardown and \<^verbatim>\<open>main\<close>\<close>

definition cleanUp :: "window \<Rightarrow> ProgramData \<Rightarrow> world \<Rightarrow> ProgramData \<times> world" where
  "cleanUp win programData w =
     (let w1 = glfwDestroyWindow win w;
          w2 = glDeleteVertexArrays (vao programData) w1;
          w3 = glfwTerminate w2
      in (programData, w3))"

datatype status = EXIT_SUCCESS | EXIT_FAILURE

datatype outcome =
    Exit status          \<comment> \<open>\<^verbatim>\<open>std::exit\<close>, or \<^verbatim>\<open>main\<close> returns\<close>
  | Uncaught exn         \<comment> \<open>an exception leaves \<^verbatim>\<open>main\<close>: \<^verbatim>\<open>std::terminate\<close>\<close>
  | Looping              \<comment> \<open>still inside \<^verbatim>\<open>mainLoop\<close> when the described frames end\<close>

definition main :: "env \<Rightarrow> outcome \<times> world" where
  "main e =
     (case initializeWindow e initialWorld of
        (None, w1) \<Rightarrow> (Exit EXIT_FAILURE, w1)
      | (Some win, w1) \<Rightarrow>
          (case initializeGL e w1 of
             (Inl x, w2) \<Rightarrow> (Uncaught x, w2)
           | (Inr programData, w2) \<Rightarrow>
               (case mainLoop win programData (frames e) w2 of
                  Unfinished w3 \<Rightarrow> (Looping, w3)
                | Returned w3 \<Rightarrow> (Exit EXIT_SUCCESS, snd (cleanUp win programData w3)))))"

section \<open>Notions used to state the properties\<close>

subsection \<open>Events that ask for the window to close\<close>

definition requestsClose :: "event \<Rightarrow> bool" where
  "requestsClose ev =
     (case ev of
        CloseRequest \<Rightarrow> True
      | KeyEvent key scancode action mods \<Rightarrow> quitChordPress key action mods)"

fun loopWorld :: "loop_result \<Rightarrow> world" where
  "loopWorld (Returned w) = w"
| "loopWorld (Unfinished w) = w"

subsection \<open>Kinds of calls\<close>

fun isLogRead :: "call \<Rightarrow> bool" where
  "isLogRead (GlGetProgramInfoLog p n) = True"
| "isLogRead (GlGetShaderInfoLog sh n) = True"
| "isLogRead c = False"

fun isTeardown :: "call \<Rightarrow> bool" where
  "isTeardown (GlfwDestroyWindow win) = True"
| "isTeardown (GlDeleteVertexArrays v) = True"
| "isTeardown GlfwTerminate = True"
| "isTeardown c = False"

text \<open>The calls that only the body of the frame loop makes.\<close>

fun isFrameCall :: "call \<Rightarrow> bool" where
  "isFrameCall (GlfwGetFramebufferSize win) = True"
| "isFrameCall (GlViewport x y a b) = True"
| "isFrameCall GlClearColor = True"
| "isFrameCall (GlClear m) = True"
| "isFrameCall (GlUseProgram p) = True"
| "isFrameCall (GlDrawArrays m a b) = True"
| "isFrameCall (GlfwSwapBuffers win) = True"
| "isFrameCall GlfwPollEvents = True"
| "isFrameCall c = False"

fun isRelease :: "call \<Rightarrow> bool" where
  "isRelease (GlDeleteShader sh) = True"
| "isRelease (GlDeleteProgram p) = True"
| "isRelease (GlDeleteVertexArrays v) = True"
| "isRelease c = False"

subsection \<open>The shader sources and what GL makes of them\<close>

definition vertexSource :: "env \<Rightarrow> string" where
  "vertexSource e = readFile (files e) ''shaders/main.vert''"

definition fragmentSource :: "env \<Rightarrow> string" where
  "fragmentSource e = readFile (files e) ''shaders/main.frag''"

definition stagesOf :: "string \<Rightarrow> string \<Rightarrow> (shader_type \<times> string) list" where
  "stagesOf vs fs = [(GL_VERTEX_SHADER, c_str vs), (GL_FRAGMENT_SHADER, c_str fs)]"

text \<open>Both sources compile and the two stages link.\<close>

definition builds :: "env \<Rightarrow> string \<Rightarrow> string \<Rightarrow> bool" where
  "builds e vs fs =
     (compileOk e GL_VERTEX_SHADER (c_str vs) \<and> compileOk e GL_FRAGMENT_SHADER (c_str fs) \<and>
      linkOk e (stagesOf vs fs))"

definition buildOk :: "env \<Rightarrow> bool" where
  "buildOk e = builds e (vertexSource e) (fragmentSource e)"

subsection \<open>Names for stretches of the call sequence\<close>

text \<open>
  The calls of \<^verbatim>\<open>initializeWindow\<close> up to the creation of the window, and from there to
  its end; what a debug build logs on the way.
\<close>

definition bootstrapCalls :: "env \<Rightarrow> call list" where
  "bootstrapCalls e =
     [GlfwInit] @
     (if DEBUG e then [GlfwSetErrorCallback] else []) @
     [GlfwWindowHint GLFW_CONTEXT_VERSION_MAJOR (HintInt 3),
      GlfwWindowHint GLFW_CONTEXT_VERSION_MINOR (HintInt 3),
      GlfwWindowHint GLFW_OPENGL_PROFILE GLFW_OPENGL_CORE_PROFILE,
      GlfwWindowHint GLFW_DECORATED (HintBool True)] @
     (if DEBUG e then [GlfwWindowHint GLFW_OPENGL_DEBUG_CONTEXT (HintBool True)] else []) @
     (if APPLE e then [GlfwWindowHint GLFW_OPENGL_FORWARD_COMPAT (HintBool True)] else []) @
     [GlfwCreateWindow 640 480 ''3D Flying Camera Test'']"

definition contextCalls :: "env \<Rightarrow> window \<Rightarrow> call list" where
  "contextCalls e win =
     [GlfwMakeContextCurrent win, GladLoadGL] @
     (if DEBUG e \<and> GLAD_GL_ARB_debug_output e
      then [GlEnableDebugOutputSynchronous, GlDebugMessageCallbackARB] else []) @
     (if DEBUG e then [GlGetStringVersion] else []) @
     [GlfwSwapInterval 1, GlfwSetKeyCallback win]"

definition debugLog :: "env \<Rightarrow> string list" where
  "debugLog e =
     (if DEBUG e
      then [if GLAD_GL_ARB_debug_output e then ''GL extension GL_ARB_debug_output available''
            else ''GL extension GL_ARB_debug_output unavailable'',
            ''C++ version: '' @ cplusplus e,
            ''OpenGL version: '' @ glVersion e]
      else [])"

text \<open>
  The calls of \<^verbatim>\<open>createProgram\<close> when \<open>n\<close> is the next free name: up to the query of
  the link status, and the detaching and deleting at its end.
\<close>

definition buildCalls :: "GLuint \<Rightarrow> string \<Rightarrow> string \<Rightarrow> call list" where
  "buildCalls n vs fs =
     [GlCreateShader GL_VERTEX_SHADER, GlShaderSource n (c_str vs), GlCompileShader n,
      GlCreateShader GL_FRAGMENT_SHADER, GlShaderSource (n + 1) (c_str fs), GlCompileShader (n + 1),
      GlCreateProgram, GlAttachShader (n + 2) n, GlAttachShader (n + 2) (n + 1),
      GlLinkProgram (n + 2), GlGetProgramiv (n + 2) GL_LINK_STATUS]"

definition releaseCalls :: "GLuint \<Rightarrow> call list" where
  "releaseCalls n =
     [GlDetachShader (n + 2) n, GlDetachShader (n + 2) (n + 1),
      GlDeleteShader n, GlDeleteShader (n + 1)]"

text \<open>
  The calls and the lines on \<^verbatim>\<open>std::cerr\<close> of the block that a debug build runs after
  a failed link.
\<close>

definition logCalls :: "GLuint \<Rightarrow> string \<Rightarrow> call list" where
  "logCalls sh log =
     GlGetShaderiv sh GL_INFO_LOG_LENGTH #
     (if 0 <s infoLogLength log then [GlGetShaderInfoLog sh (infoLogLength log)] else [])"

definition logLines :: "string \<Rightarrow> string \<Rightarrow> string list" where
  "logLines label log =
     (if 0 <s infoLogLength log then [label @ readInfoLog (infoLogLength log) log] else [])"

definition diagCalls :: "env \<Rightarrow> GLuint \<Rightarrow> string \<Rightarrow> string \<Rightarrow> call list" where
  "diagCalls e n vs fs =
     [GlGetProgramiv (n + 2) GL_INFO_LOG_LENGTH,
      GlGetProgramInfoLog (n + 2) (infoLogLength (linkLog e (stagesOf vs fs)))] @
     logCalls n (compileLog e GL_VERTEX_SHADER (c_str vs)) @
     logCalls (n + 1) (compileLog e GL_FRAGMENT_SHADER (c_str fs))"

definition diagLines :: "env \<Rightarrow> string \<Rightarrow> string \<Rightarrow> string list" where
  "diagLines e vs fs =
     (''GL program error: '' @
        readInfoLog (infoLogLength (linkLog e (stagesOf vs fs))) (linkLog e (stagesOf vs fs))) #
     logLines ''GL vertex shader error: '' (compileLog e GL_VERTEX_SHADER (c_str vs)) @
     logLines ''GL fragment shader error: '' (compileLog e GL_FRAGMENT_SHADER (c_str fs))"

text \<open>The state in which \<^verbatim>\<open>main\<close> enters the frame loop.\<close>

definition loopStart :: "env \<Rightarrow> world" where
  "loopStart e = snd (initializeGL e (snd (initializeWindow e initialWorld)))"

subsection \<open>A sample run\<close>

text \<open>
  A release build on a machine where everything works: both shader files are there, the
  window stays open for one frame, and in the second frame the user presses control+Q.
\<close>

definition env_ok :: env where
  "env_ok =
     \<lparr>DEBUG = False, APPLE = False, glfwInitResult = True, createWindowResult = Inr 7,
      GLAD_GL_ARB_debug_output = False, cplusplus = ''201703L'', glVersion = ''3.3.0'',
      files = (\<lambda>path. if path = ''shaders/main.vert'' then Some ''void main(){}''
                       else if path = ''shaders/main.frag'' then Some ''void main(){}''
                       else None),
      compileOk = (\<lambda>t src. src \<noteq> []),
      compileLog = (\<lambda>t src. if src = [] then ''no main'' else []),
      linkOk = (\<lambda>stages. True),
      linkLog = (\<lambda>stages. []),
      frames = [\<lparr>fbWidth = 640, fbHeight = 480, events = []\<rparr>,
                \<lparr>fbWidth = 800, fbHeight = 600,
                 events = [KeyEvent GLFW_KEY_Q 24 GLFW_PRESS GLFW_MOD_CONTROL]\<rparr>,
                \<lparr>fbWidth = 800, fbHeight = 600, events = []\<rparr>]\<rparr>"

section \<open>Properties of \<^verbatim>\<open>readFile\<close>\<close>

lemma takeWhile_no_newline:
  "NL \<notin> set s \<Longrightarrow> takeWhile (\<lambda>c. c \<noteq> NL) (s @ rest) = s @ takeWhile (\<lambda>c. c \<noteq> NL) rest"
  by (induction s) auto

lemma dropWhile_no_newline:
  "NL \<notin> set s \<Longrightarrow> dropWhile (\<lambda>c. c \<noteq> NL) (s @ rest) = dropWhile (\<lambda>c. c \<noteq> NL) rest"
  by (induction s) auto

lemma getline_Nil: "getline [] = None"
  by (simp add: getline_def)

lemma getline_no_newline:
  assumes "cs \<noteq> []" and "NL \<notin> set cs"
  shows "getline cs = Some (cs, [])"
proof -
  have t: "takeWhile (\<lambda>c. c \<noteq> NL) cs = cs" and d: "dropWhile (\<lambda>c. c \<noteq> NL) cs = []"
    using assms(2) by auto
  show ?thesis unfolding getline_def t d using assms(1) by simp
qed

lemma getline_newline:
  "NL \<notin> set s \<Longrightarrow> getline (s @ NL # rest) = Some (s, rest)"
  by (simp add: getline_def takeWhile_no_newline dropWhile_no_newline)

lemma readLoop_Nil: "readLoop [] out = out"
  by (subst readLoop.simps) (simp add: getline_Nil)

lemma readLoop_last_line:
  "cs \<noteq> [] \<Longrightarrow> NL \<notin> set cs \<Longrightarrow> readLoop cs out = out @ cs @ [NL]"
  by (subst readLoop.simps) (simp add: getline_no_newline readLoop_Nil)

lemma readLoop_line:
  "NL \<notin> set s \<Longrightarrow> readLoop (s @ NL # rest) out = readLoop rest (out @ s @ [NL])"
  by (subst readLoop.simps) (simp add: getline_newline)

lemma split_at_newline:
  "NL \<in> set cs \<Longrightarrow> \<exists>s rest. cs = s @ NL # rest \<and> NL \<notin> set s"
  by (metis split_list_first)

text \<open>The loop copies the text and supplies the newline a last line may lack.\<close>

lemma readLoop_closed: "readLoop cs out = out @ withFinalNewline cs"
proof (induction cs arbitrary: out rule: length_induct)
  case (1 cs)
  show ?case
  proof (cases "NL \<in> set cs")
    case False
    show ?thesis
    proof (cases "cs = []")
      case True
      then show ?thesis by (simp add: readLoop_Nil withFinalNewline_def)
    next
      case ne: False
      then have "last cs \<noteq> NL" using False last_in_set by metis
      with ne False show ?thesis
        by (simp add: readLoop_last_line withFinalNewline_def)
    qed
  next
    case True
    then obtain s rest where cs: "cs = s @ NL # rest" and s: "NL \<notin> set s"
      using split_at_newline by blast
    have "length rest < length cs" using cs by simp
    then have IH: "readLoop rest (out @ s @ [NL]) = (out @ s @ [NL]) @ withFinalNewline rest"
      using 1 by blast
    show ?thesis
      unfolding cs readLoop_line[OF s] IH by (simp add: withFinalNewline_def)
  qed
qed

lemma withFinalNewline_line:
  "withFinalNewline (s @ NL # rest) = s @ NL # withFinalNewline rest"
  by (simp add: withFinalNewline_def)

lemma withFinalNewline_lines:
  "NL \<notin> set cur \<Longrightarrow>
   withFinalNewline (cur @ cs) = concat (map (\<lambda>l. l @ [NL]) (fileLines cur cs))"
proof (induction cs arbitrary: cur)
  case Nil
  then have "cur \<noteq> [] \<Longrightarrow> last cur \<noteq> NL" using last_in_set by metis
  then show ?case by (auto simp: withFinalNewline_def)
next
  case (Cons c cs)
  show ?case
  proof (cases "c = NL")
    case True
    have "withFinalNewline cs = concat (map (\<lambda>l. l @ [NL]) (fileLines [] cs))"
      using Cons.IH[of "[]"] by simp
    then show ?thesis using True by (simp add: withFinalNewline_line)
  next
    case False
    then have "NL \<notin> set (cur @ [c])" using Cons.prems by auto
    from Cons.IH[OF this] show ?thesis using False by simp
  qed
qed

lemma fileLines_no_newline:
  "NL \<notin> set cur \<Longrightarrow> list_all (\<lambda>l. NL \<notin> set l) (fileLines cur cs)"
  by (induction cs arbitrary: cur) auto

text \<open>
  Claim C10, as amended. \<^verbatim>\<open>readFile\<close> has no failing branch: the stream is opened without
  exceptions enabled, and a path that cannot be opened gives the empty string. For a
  readable file the result is the lines of the file, each followed by one newline, none of
  them containing a newline: that is the file's text, with a newline added when the text is
  not empty and does not end in one. No character other than that newline is added,
  dropped or changed, so a carriage return before a newline stays where it is.
\<close>

theorem readFile_result:
  "readFile fs fileName =
     (case fs fileName of
        None \<Rightarrow> []
      | Some content \<Rightarrow> concat (map (\<lambda>l. l @ [NL]) (fileLines [] content))) \<and>
   readFile fs fileName =
     (case fs fileName of None \<Rightarrow> [] | Some content \<Rightarrow> withFinalNewline content) \<and>
   list_all (\<lambda>l. NL \<notin> set l) (fileLines [] (case fs fileName of None \<Rightarrow> [] | Some content \<Rightarrow> content))"
  using withFinalNewline_lines[of "[]"] fileLines_no_newline[of "[]"]
  by (simp add: readFile_def readLoop_closed split: option.splits)

text \<open>
  Claim C10 as stated says that CR LF line ends are not preserved verbatim. On a file
  whose one line ends in CR LF the result is the file's text, character for character.
\<close>

theorem readFile_keeps_crlf:
  "readFile (\<lambda>path. Some [CHR ''a'', CR, NL]) ''shaders/main.vert'' = [CHR ''a'', CR, NL]"
  by (simp add: readFile_def readLoop_closed withFinalNewline_def NL_def CR_def)

section \<open>Properties of the key handler\<close>

lemma ctrl_bit: "(mods AND GLFW_MOD_CONTROL \<noteq> 0) = bit (mods::c_int) 1"
  unfolding GLFW_MOD_CONTROL_def
  using and_exp_eq_0_iff_not_bit[of mods 1] by simp

lemma alt_bit: "(mods AND GLFW_MOD_ALT \<noteq> 0) = bit (mods::c_int) 2"
  unfolding GLFW_MOD_ALT_def
  using and_exp_eq_0_iff_not_bit[of mods 2] by simp

text \<open>
  The handler masks the action with the key code \<^verbatim>\<open>GLFW_KEY_UP\<close> (265, bits 0, 3 and 8).
  Of the three actions GLFW delivers, only \<^verbatim>\<open>GLFW_PRESS\<close> (1) has one of these bits.
\<close>

lemma press_mask:
  "action \<in> {GLFW_RELEASE, GLFW_PRESS, GLFW_REPEAT} \<Longrightarrow>
   (action AND GLFW_KEY_UP \<noteq> 0) = (action = GLFW_PRESS)"
  by (auto simp: GLFW_RELEASE_def GLFW_PRESS_def GLFW_REPEAT_def GLFW_KEY_UP_def)

text \<open>
  Claim C4. For a key event with one of GLFW's three actions, the handler sets the close
  flag, by one call of \<^verbatim>\<open>glfwSetWindowShouldClose\<close>, exactly when the event is a press of
  Q or W with control held or of F4 with alt held; for every other key event the state
  after the handler is the state before it.
\<close>

theorem keyCallback_quit:
  assumes "action \<in> {GLFW_RELEASE, GLFW_PRESS, GLFW_REPEAT}"
  shows "keyCallback win key scancode action mods w =
           (if quitChordPress key action mods
            then w\<lparr>calls := calls w @ [GlfwSetWindowShouldClose win True], shouldClose := True\<rparr>
            else w)"
  using press_mask[OF assms]
  by (auto simp: keyCallback_def quitChordPress_def ctrl_bit alt_bit Let_def
      glfwSetWindowShouldClose_def issue_def)

theorem keyCallback_quit_witness:
  "GLFW_PRESS \<in> {GLFW_RELEASE, GLFW_PRESS, GLFW_REPEAT} \<and>
   shouldClose (keyCallback 7 GLFW_KEY_W 25 GLFW_PRESS GLFW_MOD_CONTROL initialWorld) \<and>
   keyCallback 7 GLFW_KEY_W 25 GLFW_REPEAT GLFW_MOD_CONTROL initialWorld = initialWorld"
  using keyCallback_quit[of GLFW_PRESS 7 GLFW_KEY_W 25 GLFW_MOD_CONTROL initialWorld]
    keyCallback_quit[of GLFW_REPEAT 7 GLFW_KEY_W 25 GLFW_MOD_CONTROL initialWorld]
  by (simp add: quitChordPress_def GLFW_PRESS_def GLFW_REPEAT_def GLFW_MOD_CONTROL_def)

section \<open>What the phases of the program do\<close>

subsection \<open>Building the program object\<close>

lemma createShader_eq:
  "createShader e t src w =
     (nextName w,
      w\<lparr>calls := calls w @ [GlCreateShader t, GlShaderSource (nextName w) (c_str src),
                             GlCompileShader (nextName w)],
        nextName := nextName w + 1,
        shaders := (shaders w)(nextName w \<mapsto>
           \<lparr>kind = t, source = c_str src, compiled = compileOk e t (c_str src),
            shaderLog = compileLog e t (c_str src)\<rparr>)\<rparr>)"
  by (simp add: createShader_def glCreateShader_def glShaderSource_def glCompileShader_def
      issue_def Let_def)

lemma reportShaderLog_eq:
  "DEBUG e \<Longrightarrow> shaders w sh = Some obj \<Longrightarrow>
   reportShaderLog e label sh w =
     w\<lparr>calls := calls w @ logCalls sh (shaderLog obj),
       cerr := cerr w @ logLines label (shaderLog obj)\<rparr>"
  by (simp add: reportShaderLog_def glGetShaderInfoLogLength_def glGetShaderInfoLog_def
      DEBUG_ERROR_LINE_def issue_def logCalls_def logLines_def Let_def)

lemma createProgram_eq:
  assumes att: "attached w = []" and fl: "flagged w = {}"
  shows "createProgram e vs fs w =
     (if builds e vs fs then Inr (nextName w + 2)
      else Inl (RuntimeError ''Error creating GL program''),
      w\<lparr>calls := calls w @ buildCalls (nextName w) vs fs @
                  (if DEBUG e \<and> \<not> builds e vs fs then diagCalls e (nextName w) vs fs else []) @
                  releaseCalls (nextName w),
        cerr := cerr w @ (if DEBUG e \<and> \<not> builds e vs fs then diagLines e vs fs else []),
        nextName := nextName w + 3,
        shaders := (shaders w)(nextName w := None, nextName w + 1 := None),
        programs := (programs w)(nextName w + 2 \<mapsto>
           \<lparr>linked = builds e vs fs, programLog = linkLog e (stagesOf vs fs)\<rparr>)\<rparr>)"
    (is "_ = (_, ?W)")
proof -
  define n where "n = nextName w"
  define m where "m = n + 1"
  define p where "p = n + 2"
  define vobj where "vobj = \<lparr>kind = GL_VERTEX_SHADER, source = c_str vs,
    compiled = compileOk e GL_VERTEX_SHADER (c_str vs),
    shaderLog = compileLog e GL_VERTEX_SHADER (c_str vs)\<rparr>"
  define fobj where "fobj = \<lparr>kind = GL_FRAGMENT_SHADER, source = c_str fs,
    compiled = compileOk e GL_FRAGMENT_SHADER (c_str fs),
    shaderLog = compileLog e GL_FRAGMENT_SHADER (c_str fs)\<rparr>"
  define pobj where "pobj = \<lparr>linked = builds e vs fs, programLog = linkLog e (stagesOf vs fs)\<rparr>"
  define status :: c_int where "status = (if builds e vs fs then 1 else 0)"
  define w1 where "w1 = w\<lparr>calls := calls w @ take 3 (buildCalls n vs fs), nextName := m,
    shaders := (shaders w)(n \<mapsto> vobj)\<rparr>"
  define w2 where "w2 = w\<lparr>calls := calls w @ take 6 (buildCalls n vs fs), nextName := p,
    shaders := (shaders w)(n \<mapsto> vobj, m \<mapsto> fobj)\<rparr>"
  define w3 where "w3 = w\<lparr>calls := calls w @ take 7 (buildCalls n vs fs), nextName := p + 1,
    shaders := (shaders w)(n \<mapsto> vobj, m \<mapsto> fobj),
    programs := (programs w)(p \<mapsto> \<lparr>linked = False, programLog = []\<rparr>)\<rparr>"
  define w7 where "w7 = w\<lparr>calls := calls w @ buildCalls n vs fs, nextName := p + 1,
    shaders := (shaders w)(n \<mapsto> vobj, m \<mapsto> fobj),
    programs := (programs w)(p \<mapsto> pobj),
    attached := [(p, n), (p, m)]\<rparr>"
  define w8 where "w8 = w7\<lparr>calls := calls w7 @ (if DEBUG e \<and> status = 0 then diagCalls e n vs fs else []),
    cerr := cerr w7 @ (if DEBUG e \<and> status = 0 then diagLines e vs fs else [])\<rparr>"
  define w12 where "w12 = w8\<lparr>calls := calls w8 @ releaseCalls n,
    shaders := (shaders w)(n := None, m := None), attached := []\<rparr>"
  have nm: "n \<noteq> m" "m \<noteq> n" "p \<noteq> n" "p \<noteq> m" by (simp_all add: m_def p_def)
  have f1: "createShader e GL_VERTEX_SHADER vs w = (n, w1)"
    by (simp add: createShader_eq w1_def n_def m_def buildCalls_def vobj_def)
  have f2: "createShader e GL_FRAGMENT_SHADER fs w1 = (m, w2)"
    by (simp add: createShader_eq w1_def w2_def m_def p_def buildCalls_def fobj_def)
  have f3: "glCreateProgram w2 = (p, w3)"
    by (simp add: glCreateProgram_def w2_def w3_def buildCalls_def issue_def Let_def)
  have objs: "attachedObjs p (glAttachShader p m (glAttachShader p n w3)) = [vobj, fobj]"
    using nm by (simp add: attachedObjs_def glAttachShader_def issue_def w3_def att
        List.map_filter_simps)
  have stages: "map (\<lambda>obj. (kind obj, source obj)) [vobj, fobj] = stagesOf vs fs"
    by (simp add: vobj_def fobj_def stagesOf_def)
  have ok: "(list_all compiled [vobj, fobj] \<and> linkOk e (stagesOf vs fs)) = builds e vs fs"
    by (simp add: vobj_def fobj_def builds_def)
  have f7: "glGetProgramiv p GL_LINK_STATUS
              (glLinkProgram e p (glAttachShader p m (glAttachShader p n w3))) = (status, w7)"
    unfolding glLinkProgram_def objs stages ok Let_def
    using nm by (simp add: glGetProgramiv_def glAttachShader_def issue_def w3_def w7_def att
        buildCalls_def status_def pobj_def m_def p_def)
  have f8: "(if DEBUG e \<and> status = 0
             then reportLinkFailure e p n m w7 else w7) = w8"
  proof (cases "DEBUG e \<and> status = 0")
    case False
    then have "w8 = w7" unfolding w8_def by (simp only: if_False append_Nil2) simp
    with False show ?thesis by (simp only: if_False)
  next
    case True
    then have d: "DEBUG e" by simp
    have "reportLinkFailure e p n m w7 = w8"
      unfolding reportLinkFailure_def
      using True nm
      by (simp add: glGetProgramiv_def glGetProgramInfoLog_def DEBUG_ERROR_LINE_def issue_def
          reportShaderLog_eq[OF d, where obj = vobj] reportShaderLog_eq[OF d, where obj = fobj]
          w7_def w8_def pobj_def vobj_def fobj_def diagCalls_def diagLines_def Let_def
          m_def p_def)
    with True show ?thesis by simp
  qed
  have f12: "glDeleteShader m (glDeleteShader n (glDetachShader p m (glDetachShader p n w8))) = w12"
    using nm by (simp add: glDeleteShader_def glDetachShader_def issue_def w8_def w7_def w12_def
        releaseCalls_def fl Let_def m_def p_def fun_upd_twist)
  have main: "createProgram e vs fs w =
      (if status = 0 then Inl (RuntimeError ''Error creating GL program'') else Inr p, w12)"
    unfolding createProgram_def
    by (simp only: f1 f2 f3 f7 f8 f12 Let_def prod.case) simp
  have st: "(status = 0) = (\<not> builds e vs fs)" by (simp add: status_def)
  have "w12 = ?W"
    by (rule world.equality)
      (simp_all add: w12_def w8_def w7_def st p_def m_def n_def pobj_def att fl)
  then show ?thesis
    unfolding main st by (simp add: p_def m_def n_def)
qed

subsection \<open>Opening the window\<close>

lemma initializeWindow_init_fails:
  assumes "\<not> glfwInitResult e"
  shows "initializeWindow e w =
     (None, w\<lparr>calls := calls w @ [GlfwInit],
              cerr := cerr w @ (if DEBUG e then [''GLFW error: Initialization failed''] else []),
              glfwUp := False\<rparr>)"
  using assms
  by (simp add: initializeWindow_def glfwInit_def DEBUG_ERROR_LINE_def issue_def)

lemma initializeWindow_no_window:
  assumes "glfwInitResult e" and "createWindowResult e = Inl d"
  shows "initializeWindow e w =
     (None, w\<lparr>calls := calls w @ bootstrapCalls e @ [GlfwTerminate],
              cerr := cerr w @ (if DEBUG e then [''GLFW error: '' @ d] else []),
              glfwUp := False,
              errorCallback := (DEBUG e \<or> errorCallback w),
              windowOpen := False,
              glContext := False,
              shaders := Map.empty,
              programs := Map.empty,
              attached := [],
              flagged := {},
              vaos := {}\<rparr>)"
  using assms
  by (cases "DEBUG e"; cases "APPLE e")
    (simp_all add: initializeWindow_def glfwInit_def glfwSetErrorCallback_def glfwWindowHint_def
      glfwCreateWindow_def glfwTerminate_def destroyContext_def errorCallbackGLFW_def
      DEBUG_ERROR_LINE_def issue_def bootstrapCalls_def Let_def)

lemma initializeWindow_ok:
  assumes "glfwInitResult e" and "createWindowResult e = Inr win"
  shows "initializeWindow e w =
     (Some win, w\<lparr>calls := calls w @ bootstrapCalls e @ contextCalls e win,
                  cout := cout w @ debugLog e,
                  glfwUp := True,
                  errorCallback := (DEBUG e \<or> errorCallback w),
                  windowOpen := True,
                  glContext := True,
                  keyHandler := True,
                  shouldClose := False\<rparr>)"
  using assms
  by (cases "DEBUG e"; cases "APPLE e"; cases "GLAD_GL_ARB_debug_output e")
    (simp_all add: initializeWindow_def glfwInit_def glfwSetErrorCallback_def glfwWindowHint_def
      glfwCreateWindow_def glfwMakeContextCurrent_def glfwSetKeyCallback_def DEBUG_LOG_LINE_def
      issue_def bootstrapCalls_def contextCalls_def debugLog_def Let_def)

subsection \<open>Initialisation, teardown and \<^verbatim>\<open>main\<close>\<close>

lemma initializeGL_fails:
  assumes "attached w = []" and "flagged w = {}" and "\<not> buildOk e"
  shows "initializeGL e w =
     (Inl (RuntimeError ''Error creating GL program''),
      w\<lparr>calls := calls w @ buildCalls (nextName w) (vertexSource e) (fragmentSource e) @
                  (if DEBUG e then diagCalls e (nextName w) (vertexSource e) (fragmentSource e)
                   else []) @
                  releaseCalls (nextName w),
        cerr := cerr w @ (if DEBUG e then diagLines e (vertexSource e) (fragmentSource e) else []),
        nextName := nextName w + 3,
        shaders := (shaders w)(nextName w := None, nextName w + 1 := None),
        programs := (programs w)(nextName w + 2 \<mapsto>
           \<lparr>linked = False,
            programLog = linkLog e (stagesOf (vertexSource e) (fragmentSource e))\<rparr>)\<rparr>)"
  using assms(3)
  unfolding initializeGL_def Let_def buildOk_def vertexSource_def fragmentSource_def
    createProgram_eq[OF assms(1,2)]
  by simp

lemma initializeGL_ok:
  assumes "attached w = []" and "flagged w = {}" and "buildOk e"
  shows "initializeGL e w =
     (Inr \<lparr>program = nextName w + 2, vao = nextVao w, vertexCount = 3\<rparr>,
      w\<lparr>calls := calls w @ buildCalls (nextName w) (vertexSource e) (fragmentSource e) @
                  releaseCalls (nextName w) @
                  [GlGenVertexArrays, GlBindVertexArray (nextVao w), GlBindVertexArray 0],
        nextName := nextName w + 3,
        shaders := (shaders w)(nextName w := None, nextName w + 1 := None),
        programs := (programs w)(nextName w + 2 \<mapsto>
           \<lparr>linked = True,
            programLog = linkLog e (stagesOf (vertexSource e) (fragmentSource e))\<rparr>),
        nextVao := nextVao w + 1,
        vaos := insert (nextVao w) (vaos w)\<rparr>)"
  using assms(3)
  unfolding initializeGL_def Let_def buildOk_def vertexSource_def fragmentSource_def
    createProgram_eq[OF assms(1,2)]
  by (simp add: glGenVertexArrays_def glBindVertexArray_def issue_def Let_def)

lemma cleanUp_eq:
  "cleanUp win pd w =
     (pd, w\<lparr>calls := calls w @ [GlfwDestroyWindow win, GlDeleteVertexArrays (vao pd), GlfwTerminate],
            glfwUp := False, windowOpen := False, glContext := False,
            shaders := Map.empty, programs := Map.empty, attached := [], flagged := {},
            vaos := {}\<rparr>)"
  by (simp add: cleanUp_def glfwDestroyWindow_def glDeleteVertexArrays_def glfwTerminate_def
      destroyContext_def issue_def)

lemma main_init_fails:
  assumes "\<not> glfwInitResult e"
  shows "main e =
     (Exit EXIT_FAILURE,
      initialWorld\<lparr>calls := [GlfwInit],
                   cerr := (if DEBUG e then [''GLFW error: Initialization failed''] else [])\<rparr>)"
  unfolding main_def initializeWindow_init_fails[OF assms]
  by (simp add: initialWorld_def)

lemma main_no_window:
  assumes "glfwInitResult e" and "createWindowResult e = Inl d"
  shows "main e =
     (Exit EXIT_FAILURE,
      initialWorld\<lparr>calls := bootstrapCalls e @ [GlfwTerminate],
                   cerr := (if DEBUG e then [''GLFW error: '' @ d] else []),
                   errorCallback := DEBUG e\<rparr>)"
  unfolding main_def initializeWindow_no_window[OF assms]
  by (simp add: initialWorld_def)

lemma main_build_fails:
  assumes "glfwInitResult e" and "createWindowResult e = Inr win" and "\<not> buildOk e"
  shows "main e =
     (Uncaught (RuntimeError ''Error creating GL program''),
      initialWorld\<lparr>calls := bootstrapCalls e @ contextCalls e win @
                     buildCalls 1 (vertexSource e) (fragmentSource e) @
                     (if DEBUG e then diagCalls e 1 (vertexSource e) (fragmentSource e) else []) @
                     releaseCalls 1,
                   cerr := (if DEBUG e then diagLines e (vertexSource e) (fragmentSource e) else []),
                   cout := debugLog e,
                   glfwUp := True,
                   errorCallback := DEBUG e,
                   windowOpen := True,
                   glContext := True,
                   keyHandler := True,
                   nextName := 4,
                   programs := [3 \<mapsto> \<lparr>linked = False,
                      programLog = linkLog e (stagesOf (vertexSource e) (fragmentSource e))\<rparr>]\<rparr>)"
    (is "_ = (_, ?W)")
proof -
  let ?w1 = "initialWorld\<lparr>calls := calls initialWorld @ bootstrapCalls e @ contextCalls e win,
                  cout := cout initialWorld @ debugLog e,
                  glfwUp := True,
                  errorCallback := (DEBUG e \<or> errorCallback initialWorld),
                  windowOpen := True,
                  glContext := True,
                  keyHandler := True,
                  shouldClose := False\<rparr>"
  have a: "attached ?w1 = []" and f: "flagged ?w1 = {}"
    by (simp_all add: initialWorld_def)
  have "snd (initializeGL e ?w1) = ?W"
    unfolding initializeGL_fails[OF a f assms(3)] snd_conv
    by (rule world.equality) (simp_all add: initialWorld_def numeral_3_eq_3)
  then show ?thesis
    unfolding main_def initializeWindow_ok[OF assms(1,2)]
    by (simp add: initializeGL_fails[OF a f assms(3)])
qed

lemma loopStart_eq:
  assumes "glfwInitResult e" and "createWindowResult e = Inr win" and "buildOk e"
  shows "loopStart e =
      initialWorld\<lparr>calls := bootstrapCalls e @ contextCalls e win @
                     buildCalls 1 (vertexSource e) (fragmentSource e) @ releaseCalls 1 @
                     [GlGenVertexArrays, GlBindVertexArray 1, GlBindVertexArray 0],
                   cout := debugLog e,
                   glfwUp := True,
                   errorCallback := DEBUG e,
                   windowOpen := True,
                   glContext := True,
                   keyHandler := True,
                   nextName := 4,
                   programs := [3 \<mapsto> \<lparr>linked = True,
                      programLog = linkLog e (stagesOf (vertexSource e) (fragmentSource e))\<rparr>],
                   nextVao := 2,
                   vaos := {1}\<rparr>"
    (is "_ = ?W")
proof -
  let ?w1 = "initialWorld\<lparr>calls := calls initialWorld @ bootstrapCalls e @ contextCalls e win,
                  cout := cout initialWorld @ debugLog e,
                  glfwUp := True,
                  errorCallback := (DEBUG e \<or> errorCallback initialWorld),
                  windowOpen := True,
                  glContext := True,
                  keyHandler := True,
                  shouldClose := False\<rparr>"
  have a: "attached ?w1 = []" and f: "flagged ?w1 = {}"
    by (simp_all add: initialWorld_def)
  show ?thesis
    unfolding loopStart_def initializeWindow_ok[OF assms(1,2)] snd_conv
      initializeGL_ok[OF a f assms(3)]
    by (rule world.equality) (simp_all add: initialWorld_def numeral_3_eq_3)
qed

lemma initializeGL_start_ok:
  assumes "glfwInitResult e" and "createWindowResult e = Inr win" and "buildOk e"
  shows "initializeGL e (snd (initializeWindow e initialWorld)) =
           (Inr \<lparr>program = 3, vao = 1, vertexCount = 3\<rparr>, loopStart e)"
proof -
  let ?w1 = "snd (initializeWindow e initialWorld)"
  have a: "attached ?w1 = []" and f: "flagged ?w1 = {}"
    and n: "nextName ?w1 = 1" and v: "nextVao ?w1 = 1"
    by (simp_all add: initializeWindow_ok[OF assms(1,2)] initialWorld_def)
  have "fst (initializeGL e ?w1) = Inr \<lparr>program = 3, vao = 1, vertexCount = 3\<rparr>"
    by (simp add: initializeGL_ok[OF a f assms(3)] n v)
  then show ?thesis
    unfolding loopStart_def by (simp add: prod_eq_iff)
qed

lemma main_ok:
  assumes "glfwInitResult e" and "createWindowResult e = Inr win" and "buildOk e"
  shows "main e =
     (case mainLoop win \<lparr>program = 3, vao = 1, vertexCount = 3\<rparr> (frames e) (loopStart e) of
        Unfinished w3 \<Rightarrow> (Looping, w3)
      | Returned w3 \<Rightarrow>
          (Exit EXIT_SUCCESS,
           snd (cleanUp win \<lparr>program = 3, vao = 1, vertexCount = 3\<rparr> w3)))"
proof -
  obtain w1 where iw: "initializeWindow e initialWorld = (Some win, w1)"
    by (simp add: initializeWindow_ok[OF assms(1,2)])
  have ig: "initializeGL e w1 = (Inr \<lparr>program = 3, vao = 1, vertexCount = 3\<rparr>, loopStart e)"
    using initializeGL_start_ok[OF assms] by (simp add: iw)
  show ?thesis
    unfolding main_def by (simp add: iw ig split: loop_result.splits)
qed

lemma main_build_fails_fields:
  assumes "glfwInitResult e" and "createWindowResult e = Inr win" and "\<not> buildOk e"
  shows "fst (main e) = Uncaught (RuntimeError ''Error creating GL program'')"
    and "calls (snd (main e)) =
           bootstrapCalls e @ contextCalls e win @
           buildCalls 1 (vertexSource e) (fragmentSource e) @
           (if DEBUG e then diagCalls e 1 (vertexSource e) (fragmentSource e) else []) @
           releaseCalls 1"
    and "cerr (snd (main e)) =
           (if DEBUG e then diagLines e (vertexSource e) (fragmentSource e) else [])"
    and "windowOpen (snd (main e))"
    and "glfwUp (snd (main e))"
  unfolding main_build_fails[OF assms] by simp_all

subsection \<open>The frame loop\<close>

lemma keyCallback_press:
  "quitChordPress key action mods \<Longrightarrow>
   keyCallback win key scancode action mods w =
     w\<lparr>calls := calls w @ [GlfwSetWindowShouldClose win True], shouldClose := True\<rparr>"
  by (auto simp: keyCallback_def quitChordPress_def ctrl_bit alt_bit Let_def
      glfwSetWindowShouldClose_def issue_def GLFW_PRESS_def GLFW_KEY_UP_def)

lemma dispatch_keeps_flag: "shouldClose w \<Longrightarrow> shouldClose (dispatch win ev w)"
  by (cases ev) (simp_all add: keyCallback_def Let_def glfwSetWindowShouldClose_def issue_def)

lemma dispatch_keyHandler: "keyHandler (dispatch win ev w) = keyHandler w"
  by (cases ev) (simp_all add: keyCallback_def Let_def glfwSetWindowShouldClose_def issue_def)

lemma dispatch_calls:
  "calls (dispatch win ev w) = calls w \<or>
   calls (dispatch win ev w) = calls w @ [GlfwSetWindowShouldClose win True]"
  by (cases ev) (simp_all add: keyCallback_def Let_def glfwSetWindowShouldClose_def issue_def)

lemma dispatch_closes:
  "requestsClose ev \<Longrightarrow> keyHandler w \<Longrightarrow> shouldClose (dispatch win ev w)"
  by (cases ev) (simp_all add: requestsClose_def keyCallback_press)

lemma fold_dispatch_keeps_flag:
  "shouldClose w \<Longrightarrow> shouldClose (fold (dispatch win) evs w)"
  by (induction evs arbitrary: w) (simp_all add: dispatch_keeps_flag)

lemma fold_dispatch_closes:
  "list_ex requestsClose evs \<Longrightarrow> keyHandler w \<Longrightarrow> shouldClose (fold (dispatch win) evs w)"
proof (induction evs arbitrary: w)
  case Nil
  then show ?case by simp
next
  case (Cons ev evs)
  show ?case
  proof (cases "requestsClose ev")
    case True
    then have "shouldClose (dispatch win ev w)" using Cons.prems(2) by (rule dispatch_closes)
    then show ?thesis by (simp add: fold_dispatch_keeps_flag)
  next
    case False
    then have "list_ex requestsClose evs" using Cons.prems(1) by simp
    moreover have "keyHandler (dispatch win ev w)"
      using Cons.prems(2) by (simp add: dispatch_keyHandler)
    ultimately show ?thesis using Cons.IH by simp
  qed
qed

lemma fold_dispatch_calls:
  "\<exists>k. calls (fold (dispatch win) evs w) =
        calls w @ replicate k (GlfwSetWindowShouldClose win True)"
proof (induction evs arbitrary: w)
  case Nil
  show ?case by (rule exI[of _ 0]) simp
next
  case (Cons ev evs)
  obtain k where k: "calls (fold (dispatch win) evs (dispatch win ev w)) =
      calls (dispatch win ev w) @ replicate k (GlfwSetWindowShouldClose win True)"
    using Cons.IH by blast
  from dispatch_calls[of win ev w] show ?case
  proof
    assume "calls (dispatch win ev w) = calls w"
    with k show ?thesis by auto
  next
    assume "calls (dispatch win ev w) = calls w @ [GlfwSetWindowShouldClose win True]"
    with k have "calls (fold (dispatch win) (ev # evs) w) =
        calls w @ replicate (Suc k) (GlfwSetWindowShouldClose win True)" by simp
    then show ?thesis by blast
  qed
qed

text \<open>The body of the loop: nine calls, then the handling of the pending events.\<close>

lemma frame_eq:
  "frame win pd f w =
     fold (dispatch win) (events f)
       (w\<lparr>calls := calls w @
          [GlfwGetFramebufferSize win,
           GlViewport 0 0 (fbWidth f) (fbHeight f),
           GlClearColor,
           GlClear GL_COLOR_BUFFER_BIT,
           GlUseProgram (program pd),
           GlBindVertexArray (vao pd),
           GlDrawArrays GL_TRIANGLES 0 (vertexCount pd),
           GlfwSwapBuffers win,
           GlfwPollEvents]\<rparr>)"
  by (simp add: frame_def glfwGetFramebufferSize_def glBindVertexArray_def glfwPollEvents_def
      issue_def)

lemma frame_closes:
  "list_ex requestsClose (events f) \<Longrightarrow> keyHandler w \<Longrightarrow> shouldClose (frame win pd f w)"
  by (simp add: frame_eq fold_dispatch_closes)

lemma mainLoop_flag_set:
  "shouldClose w \<Longrightarrow> mainLoop win pd fs w = Returned (issue (GlfwWindowShouldClose win) w)"
  by (cases fs) (simp_all add: glfwWindowShouldClose_def)

lemma mainLoop_step:
  "\<not> shouldClose w \<Longrightarrow>
   mainLoop win pd (f # fs) w =
     mainLoop win pd fs (frame win pd f (issue (GlfwWindowShouldClose win) w))"
  by (simp add: glfwWindowShouldClose_def)

lemma mainLoop_last_frame:
  assumes "\<not> shouldClose w" and "keyHandler w" and "list_ex requestsClose (events f)"
  shows "mainLoop win pd (f # fs) w =
           Returned (issue (GlfwWindowShouldClose win)
                      (frame win pd f (issue (GlfwWindowShouldClose win) w)))"
proof -
  have "keyHandler (issue (GlfwWindowShouldClose win) w)"
    using assms(2) by (simp add: issue_def)
  then have "shouldClose (frame win pd f (issue (GlfwWindowShouldClose win) w))"
    using assms(3) by (simp add: frame_closes)
  then show ?thesis
    unfolding mainLoop_step[OF assms(1)] by (rule mainLoop_flag_set)
qed

lemma initializeGL_vertexCount:
  "fst (initializeGL e w0) = Inr pd \<Longrightarrow> vertexCount pd = 3"
  by (auto simp: initializeGL_def Let_def glGenVertexArrays_def split: prod.splits sum.splits)

lemma frame_keyHandler: "keyHandler (frame win pd f w) = keyHandler w"
proof -
  have "keyHandler (fold (dispatch win) evs v) = keyHandler v" for evs v
    by (induction evs arbitrary: v) (simp_all add: dispatch_keyHandler)
  then show ?thesis by (simp add: frame_eq)
qed

text \<open>
  The loop returns when some frame among those described brings a close request or a quit
  chord: the list of frames does not run out before.
\<close>

lemma mainLoop_returns:
  "keyHandler w \<Longrightarrow> list_ex (\<lambda>f. list_ex requestsClose (events f)) fs \<Longrightarrow>
   \<exists>w'. mainLoop win pd fs w = Returned w'"
proof (induction fs arbitrary: w)
  case Nil
  then show ?case by simp
next
  case (Cons f fs)
  show ?case
  proof (cases "shouldClose w")
    case True
    show ?thesis unfolding mainLoop_flag_set[OF True] by blast
  next
    case running: False
    show ?thesis
    proof (cases "list_ex requestsClose (events f)")
      case True
      show ?thesis unfolding mainLoop_last_frame[OF running Cons.prems(1) True] by blast
    next
      case False
      then have later: "list_ex (\<lambda>f. list_ex requestsClose (events f)) fs"
        using Cons.prems(2) by simp
      have "keyHandler (frame win pd f (issue (GlfwWindowShouldClose win) w))"
        using Cons.prems(1) by (simp add: frame_keyHandler issue_def)
      from Cons.IH[OF this later] show ?thesis
        unfolding mainLoop_step[OF running] .
    qed
  qed
qed

text \<open>In the sample run the second frame brings the quit chord.\<close>

lemma env_ok_frames_close:
  "list_ex (\<lambda>f. list_ex requestsClose (events f)) (frames env_ok)"
  by (simp add: env_ok_def requestsClose_def quitChordPress_def GLFW_MOD_CONTROL_def)

section \<open>The frame loop: claims C2 and C3\<close>

text \<open>
  Claim C2. The close flag is set by the handling of events at the end of an iteration:
  by a close request of the window system or by the key handler on a quit chord. If it is
  set when the loop tests it, the loop returns without a further iteration, whatever
  the frames to come. If it is clear and the events of the coming frame contain a close
  request or a quit chord, the loop runs that one iteration and returns after it. So the
  loop returns whenever one of the frames to come brings such an event.
\<close>

theorem mainLoop_close_flag:
  "(shouldClose w \<longrightarrow>
      mainLoop win pd fs w = Returned (issue (GlfwWindowShouldClose win) w)) \<and>
   (\<not> shouldClose w \<and> keyHandler w \<and> list_ex requestsClose (events f) \<longrightarrow>
      mainLoop win pd (f # fs) w =
        Returned (issue (GlfwWindowShouldClose win)
                   (frame win pd f (issue (GlfwWindowShouldClose win) w)))) \<and>
   (keyHandler w \<and> list_ex (\<lambda>f. list_ex requestsClose (events f)) fs \<longrightarrow>
      (\<exists>w'. mainLoop win pd fs w = Returned w'))"
proof (intro conjI impI)
  assume "shouldClose w"
  then show "mainLoop win pd fs w = Returned (issue (GlfwWindowShouldClose win) w)"
    by (rule mainLoop_flag_set)
next
  assume "\<not> shouldClose w \<and> keyHandler w \<and> list_ex requestsClose (events f)"
  then show "mainLoop win pd (f # fs) w =
        Returned (issue (GlfwWindowShouldClose win)
                   (frame win pd f (issue (GlfwWindowShouldClose win) w)))"
    using mainLoop_last_frame by blast
next
  assume "keyHandler w \<and> list_ex (\<lambda>f. list_ex requestsClose (events f)) fs"
  then show "\<exists>w'. mainLoop win pd fs w = Returned w'"
    using mainLoop_returns by blast
qed

theorem mainLoop_close_flag_witness:
  "mainLoop 7 \<lparr>program = 3, vao = 1, vertexCount = 3\<rparr> (frames env_ok)
     (initialWorld\<lparr>shouldClose := True\<rparr>) =
     Returned (issue (GlfwWindowShouldClose 7) (initialWorld\<lparr>shouldClose := True\<rparr>)) \<and>
   mainLoop 7 \<lparr>program = 3, vao = 1, vertexCount = 3\<rparr>
     (\<lparr>fbWidth = 640, fbHeight = 480, events = [CloseRequest]\<rparr> # frames env_ok)
     (initialWorld\<lparr>keyHandler := True\<rparr>) =
     Returned (issue (GlfwWindowShouldClose 7)
       (frame 7 \<lparr>program = 3, vao = 1, vertexCount = 3\<rparr>
          \<lparr>fbWidth = 640, fbHeight = 480, events = [CloseRequest]\<rparr>
          (issue (GlfwWindowShouldClose 7) (initialWorld\<lparr>keyHandler := True\<rparr>)))) \<and>
   (\<exists>w'. mainLoop 7 \<lparr>program = 3, vao = 1, vertexCount = 3\<rparr> (frames env_ok)
           (initialWorld\<lparr>keyHandler := True\<rparr>) = Returned w')"
  using mainLoop_close_flag[of "initialWorld\<lparr>shouldClose := True\<rparr>" 7
      "\<lparr>program = 3, vao = 1, vertexCount = 3\<rparr>" "frames env_ok"]
    mainLoop_close_flag[of "initialWorld\<lparr>keyHandler := True\<rparr>" 7
      "\<lparr>program = 3, vao = 1, vertexCount = 3\<rparr>" "frames env_ok"
      "\<lparr>fbWidth = 640, fbHeight = 480, events = [CloseRequest]\<rparr>"]
    env_ok_frames_close
  by (simp add: initialWorld_def requestsClose_def del: mainLoop.simps)

text \<open>
  Claim C3. With the program data that \<^verbatim>\<open>initializeGL\<close> returns, one iteration makes
  these calls in this order: the framebuffer size is queried, the viewport is set to it,
  the colour buffer is cleared, the program and the vertex array are bound, one draw call
  draws 3 vertices as triangles, the frame is presented and the pending events are
  handled. The only calls after that are those of the key handler setting the close flag.
\<close>

theorem frame_calls:
  assumes "fst (initializeGL e w0) = Inr pd"
  shows "\<exists>k. calls (frame win pd f w) =
           calls w @
           [GlfwGetFramebufferSize win,
            GlViewport 0 0 (fbWidth f) (fbHeight f),
            GlClearColor,
            GlClear GL_COLOR_BUFFER_BIT,
            GlUseProgram (program pd),
            GlBindVertexArray (vao pd),
            GlDrawArrays GL_TRIANGLES 0 3,
            GlfwSwapBuffers win,
            GlfwPollEvents] @
           replicate k (GlfwSetWindowShouldClose win True)"
proof -
  let ?w9 = "w\<lparr>calls := calls w @
          [GlfwGetFramebufferSize win,
           GlViewport 0 0 (fbWidth f) (fbHeight f),
           GlClearColor,
           GlClear GL_COLOR_BUFFER_BIT,
           GlUseProgram (program pd),
           GlBindVertexArray (vao pd),
           GlDrawArrays GL_TRIANGLES 0 3,
           GlfwSwapBuffers win,
           GlfwPollEvents]\<rparr>"
  obtain k where "calls (fold (dispatch win) (events f) ?w9) =
      calls ?w9 @ replicate k (GlfwSetWindowShouldClose win True)"
    using fold_dispatch_calls by blast
  then have "calls (frame win pd f w) =
      calls ?w9 @ replicate k (GlfwSetWindowShouldClose win True)"
    unfolding frame_eq initializeGL_vertexCount[OF assms] .
  then show ?thesis by simp
qed

theorem frame_calls_witness:
  "fst (initializeGL env_ok initialWorld) = Inr \<lparr>program = 3, vao = 1, vertexCount = 3\<rparr> \<and>
   (\<exists>k. calls (frame 7 \<lparr>program = 3, vao = 1, vertexCount = 3\<rparr>
                 \<lparr>fbWidth = 640, fbHeight = 480, events = []\<rparr> initialWorld) =
         [GlfwGetFramebufferSize 7, GlViewport 0 0 640 480, GlClearColor,
          GlClear GL_COLOR_BUFFER_BIT, GlUseProgram 3, GlBindVertexArray 1,
          GlDrawArrays GL_TRIANGLES 0 3, GlfwSwapBuffers 7, GlfwPollEvents] @
         replicate k (GlfwSetWindowShouldClose 7 True))"
proof -
  have ok: "buildOk env_ok"
    by (simp add: buildOk_def builds_def vertexSource_def fragmentSource_def stagesOf_def
        c_str_def env_ok_def readFile_def readLoop_closed withFinalNewline_def NL_def)
  have h: "fst (initializeGL env_ok initialWorld) = Inr \<lparr>program = 3, vao = 1, vertexCount = 3\<rparr>"
    by (simp add: initializeGL_ok[OF _ _ ok] initialWorld_def numeral_3_eq_3)
  from frame_calls[OF h, of 7 "\<lparr>fbWidth = 640, fbHeight = 480, events = []\<rparr>" initialWorld]
  show ?thesis using h by (simp add: initialWorld_def)
qed

section \<open>Failure to open the window: claim C5\<close>

lemma bootstrapCalls_not_GL: "\<not> list_ex isGL (bootstrapCalls e)"
  by (simp add: bootstrapCalls_def)

text \<open>
  Claim C5, as amended. When GLFW cannot be initialised or the window cannot be created,
  \<^verbatim>\<open>main\<close> exits with \<^verbatim>\<open>EXIT_FAILURE\<close> and has made no GL call. Only a build with
  \<^verbatim>\<open>DEBUG\<close> reports the error: one line on \<^verbatim>\<open>std::cerr\<close>, written by the program when
  initialisation fails and by its GLFW error callback, with GLFW's description \<open>d\<close>, when
  the window cannot be created. A build without \<^verbatim>\<open>DEBUG\<close> prints nothing.
\<close>

theorem window_failure_exits:
  assumes "\<not> glfwInitResult e \<or> createWindowResult e = Inl d"
  shows "fst (main e) = Exit EXIT_FAILURE \<and>
         \<not> list_ex isGL (calls (snd (main e))) \<and>
         cerr (snd (main e)) =
           (if DEBUG e
            then [if glfwInitResult e then ''GLFW error: '' @ d
                  else ''GLFW error: Initialization failed'']
            else []) \<and>
         cout (snd (main e)) = []"
proof (cases "glfwInitResult e")
  case False
  then show ?thesis
    by (simp add: main_init_fails initialWorld_def)
next
  case True
  with assms have "createWindowResult e = Inl d" by simp
  from main_no_window[OF True this] show ?thesis
    using True bootstrapCalls_not_GL[of e] by (simp add: initialWorld_def)
qed

theorem window_failure_exits_witness:
  "fst (main (env_ok\<lparr>DEBUG := True, createWindowResult := Inl ''no context''\<rparr>)) = Exit EXIT_FAILURE \<and>
   cerr (snd (main (env_ok\<lparr>DEBUG := True, createWindowResult := Inl ''no context''\<rparr>))) =
     [''GLFW error: no context'']"
  using window_failure_exits[of "env_ok\<lparr>DEBUG := True, createWindowResult := Inl ''no context''\<rparr>"
      "''no context''"]
  by (simp add: env_ok_def)

text \<open>
  Claim C5 as stated has the process report the error. In a build without \<^verbatim>\<open>DEBUG\<close>
  a failed initialisation of GLFW ends the process with nothing written to either stream.
\<close>

theorem window_failure_silent:
  "fst (main (env_ok\<lparr>glfwInitResult := False\<rparr>)) = Exit EXIT_FAILURE \<and>
   cerr (snd (main (env_ok\<lparr>glfwInitResult := False\<rparr>))) = [] \<and>
   cout (snd (main (env_ok\<lparr>glfwInitResult := False\<rparr>))) = []"
  by (simp add: main_init_fails env_ok_def initialWorld_def)

section \<open>Building the program object: claims C8, C6, C9 and C7\<close>

text \<open>
  Claim C8. In a context where no shader is attached to a program or flagged for deletion,
  as when \<^verbatim>\<open>main\<close> calls it, and with sources that compile and link,
  \<^verbatim>\<open>createProgram\<close> returns the name of the program object. Its last four calls detach
  the two shaders and delete them; afterwards no shader is attached, the two shader objects
  do not exist and no other has appeared, the program object is there, linked, and is the
  only program object that has appeared, and the vertex arrays are as before.
\<close>

theorem createProgram_success:
  assumes "attached w = []" and "flagged w = {}" and "builds e vs fs"
  shows "fst (createProgram e vs fs w) = Inr (nextName w + 2) \<and>
         calls (snd (createProgram e vs fs w)) =
           calls w @ buildCalls (nextName w) vs fs @
           [GlDetachShader (nextName w + 2) (nextName w),
            GlDetachShader (nextName w + 2) (nextName w + 1),
            GlDeleteShader (nextName w),
            GlDeleteShader (nextName w + 1)] \<and>
         attached (snd (createProgram e vs fs w)) = [] \<and>
         flagged (snd (createProgram e vs fs w)) = {} \<and>
         shaders (snd (createProgram e vs fs w)) =
           (shaders w)(nextName w := None, nextName w + 1 := None) \<and>
         programs (snd (createProgram e vs fs w)) =
           (programs w)(nextName w + 2 \<mapsto>
              \<lparr>linked = True, programLog = linkLog e (stagesOf vs fs)\<rparr>) \<and>
         vaos (snd (createProgram e vs fs w)) = vaos w"
  using assms by (simp add: createProgram_eq releaseCalls_def)

theorem createProgram_success_witness:
  "fst (createProgram env_ok ''void main(){}'' ''void main(){}'' initialWorld) = Inr 3 \<and>
   attached (snd (createProgram env_ok ''void main(){}'' ''void main(){}'' initialWorld)) = [] \<and>
   shaders (snd (createProgram env_ok ''void main(){}'' ''void main(){}'' initialWorld)) 1 = None \<and>
   shaders (snd (createProgram env_ok ''void main(){}'' ''void main(){}'' initialWorld)) 2 = None \<and>
   programs (snd (createProgram env_ok ''void main(){}'' ''void main(){}'' initialWorld)) 3 =
     Some \<lparr>linked = True, programLog = []\<rparr>"
  using createProgram_success[of initialWorld env_ok "''void main(){}''" "''void main(){}''"]
  by (simp add: initialWorld_def builds_def stagesOf_def c_str_def env_ok_def)

lemma initializeWindow_fresh:
  assumes "glfwInitResult e" and "createWindowResult e = Inr win"
  shows "attached (snd (initializeWindow e initialWorld)) = []"
    and "flagged (snd (initializeWindow e initialWorld)) = {}"
  by (simp_all add: initializeWindow_ok[OF assms] initialWorld_def)

lemma failure_calls_log:
  "list_ex isLogRead
     (bootstrapCalls e @ contextCalls e win @ buildCalls n vs fs @
      (if DEBUG e then diagCalls e n vs fs else []) @ releaseCalls n) = DEBUG e"
  by (simp add: bootstrapCalls_def contextCalls_def buildCalls_def diagCalls_def logCalls_def
      releaseCalls_def)

lemma failure_calls_teardown:
  "\<not> list_ex isTeardown
     (bootstrapCalls e @ contextCalls e win @ buildCalls n vs fs @
      (if DEBUG e then diagCalls e n vs fs else []) @ releaseCalls n)"
  by (simp add: bootstrapCalls_def contextCalls_def buildCalls_def diagCalls_def logCalls_def
      releaseCalls_def)

lemma failure_calls_frame:
  "\<not> list_ex isFrameCall
     (bootstrapCalls e @ contextCalls e win @ buildCalls n vs fs @
      (if DEBUG e then diagCalls e n vs fs else []) @ releaseCalls n)"
  by (simp add: bootstrapCalls_def contextCalls_def buildCalls_def diagCalls_def logCalls_def
      releaseCalls_def)

text \<open>
  Claim C6, as amended. When a shader does not compile or the program does not link,
  \<^verbatim>\<open>createProgram\<close> throws the runtime error instead of returning a handle, and the
  error leaves \<^verbatim>\<open>main\<close> uncaught. The info logs are read, and printed to
  \<^verbatim>\<open>std::cerr\<close>, in a build with \<^verbatim>\<open>DEBUG\<close> and only there.
\<close>

theorem build_failure_uncaught:
  assumes "glfwInitResult e" and "createWindowResult e = Inr win"
    and "\<not> compileOk e GL_VERTEX_SHADER (c_str (vertexSource e)) \<or>
         \<not> compileOk e GL_FRAGMENT_SHADER (c_str (fragmentSource e)) \<or>
         \<not> linkOk e (stagesOf (vertexSource e) (fragmentSource e))"
  shows "fst (createProgram e (vertexSource e) (fragmentSource e)
                (snd (initializeWindow e initialWorld))) =
           Inl (RuntimeError ''Error creating GL program'') \<and>
         fst (main e) = Uncaught (RuntimeError ''Error creating GL program'') \<and>
         list_ex isLogRead (calls (snd (main e))) = DEBUG e \<and>
         cerr (snd (main e)) =
           (if DEBUG e then diagLines e (vertexSource e) (fragmentSource e) else [])"
proof -
  have nb: "\<not> builds e (vertexSource e) (fragmentSource e)"
    using assms(3) by (auto simp: builds_def)
  then have nok: "\<not> buildOk e" by (simp add: buildOk_def)
  have "fst (createProgram e (vertexSource e) (fragmentSource e)
                (snd (initializeWindow e initialWorld))) =
           Inl (RuntimeError ''Error creating GL program'')"
    using nb by (simp add: createProgram_eq[OF initializeWindow_fresh[OF assms(1,2)]])
  moreover have "list_ex isLogRead (calls (snd (main e))) = DEBUG e"
    unfolding main_build_fails_fields(2)[OF assms(1,2) nok] by (rule failure_calls_log)
  ultimately show ?thesis
    by (simp add: main_build_fails_fields(1,3)[OF assms(1,2) nok])
qed

theorem build_failure_uncaught_witness:
  "fst (main (env_ok\<lparr>DEBUG := True, linkOk := (\<lambda>stages. False)\<rparr>)) =
     Uncaught (RuntimeError ''Error creating GL program'') \<and>
   list_ex isLogRead (calls (snd (main (env_ok\<lparr>DEBUG := True, linkOk := (\<lambda>stages. False)\<rparr>)))) \<and>
   cerr (snd (main (env_ok\<lparr>DEBUG := True, linkOk := (\<lambda>stages. False)\<rparr>))) =
     [''GL program error: '']"
  using build_failure_uncaught[of "env_ok\<lparr>DEBUG := True, linkOk := (\<lambda>stages. False)\<rparr>" 7]
  by (simp add: env_ok_def diagLines_def logLines_def infoLogLength_def readInfoLog_def
      vertexSource_def fragmentSource_def stagesOf_def c_str_def
      readFile_def readLoop_closed withFinalNewline_def NL_def)

text \<open>
  Claim C6 as stated has the diagnostic text retrieved on every failure. In a build
  without \<^verbatim>\<open>DEBUG\<close> a failed link ends in the uncaught error with no info log read and
  nothing printed.
\<close>

theorem build_failure_silent:
  "fst (main (env_ok\<lparr>linkOk := (\<lambda>stages. False)\<rparr>)) =
     Uncaught (RuntimeError ''Error creating GL program'') \<and>
   \<not> list_ex isLogRead (calls (snd (main (env_ok\<lparr>linkOk := (\<lambda>stages. False)\<rparr>)))) \<and>
   cerr (snd (main (env_ok\<lparr>linkOk := (\<lambda>stages. False)\<rparr>))) = []"
proof -
  let ?e = "env_ok\<lparr>linkOk := (\<lambda>stages. False)\<rparr>"
  have i: "glfwInitResult ?e" and c: "createWindowResult ?e = Inr 7" and d: "\<not> DEBUG ?e"
    by (simp_all add: env_ok_def)
  have nok: "\<not> buildOk ?e" by (simp add: buildOk_def builds_def)
  have "list_ex isLogRead (calls (snd (main ?e))) = DEBUG ?e"
    unfolding main_build_fails_fields(2)[OF i c nok] by (rule failure_calls_log)
  then show ?thesis
    using d by (simp add: main_build_fails_fields(1,3)[OF i c nok])
qed

text \<open>
  Claim C9. When the window is there and the build of the program object fails, the run
  ends with the uncaught error and has called none of \<^verbatim>\<open>glfwDestroyWindow\<close>,
  \<^verbatim>\<open>glDeleteVertexArrays\<close> and \<^verbatim>\<open>glfwTerminate\<close>: the window still exists and GLFW is
  still initialised.
\<close>

theorem build_failure_skips_teardown:
  assumes "glfwInitResult e" and "createWindowResult e = Inr win" and "\<not> buildOk e"
  shows "fst (main e) = Uncaught (RuntimeError ''Error creating GL program'') \<and>
         \<not> list_ex isTeardown (calls (snd (main e))) \<and>
         windowOpen (snd (main e)) \<and>
         glfwUp (snd (main e))"
proof -
  have "\<not> list_ex isTeardown (calls (snd (main e)))"
    unfolding main_build_fails_fields(2)[OF assms] by (rule failure_calls_teardown)
  then show ?thesis
    by (simp add: main_build_fails_fields(1,4,5)[OF assms])
qed

theorem build_failure_skips_teardown_witness:
  "fst (main (env_ok\<lparr>compileOk := (\<lambda>t src. False)\<rparr>)) =
     Uncaught (RuntimeError ''Error creating GL program'') \<and>
   \<not> list_ex isTeardown (calls (snd (main (env_ok\<lparr>compileOk := (\<lambda>t src. False)\<rparr>)))) \<and>
   windowOpen (snd (main (env_ok\<lparr>compileOk := (\<lambda>t src. False)\<rparr>))) \<and>
   glfwUp (snd (main (env_ok\<lparr>compileOk := (\<lambda>t src. False)\<rparr>)))"
  using build_failure_skips_teardown[of "env_ok\<lparr>compileOk := (\<lambda>t src. False)\<rparr>" 7]
  by (simp add: env_ok_def buildOk_def builds_def)

text \<open>
  Claim C7. GLSL gives a stage whose source is empty no \<^verbatim>\<open>main\<close>, and a program with
  such a stage does not link; so take a GL that builds no program when the source of the
  vertex or of the fragment shader is empty. Then, when the window is there and one of
  the two shader files cannot be read, \<^verbatim>\<open>readFile\<close> hands on the empty string,
  \<^verbatim>\<open>initializeGL\<close> ends in the runtime error instead of returning program data, and the
  error leaves \<^verbatim>\<open>main\<close> uncaught: the process terminates without entering the frame
  loop.
\<close>

theorem unreadable_source_fatal:
  assumes "glfwInitResult e" and "createWindowResult e = Inr win"
    and "\<And>src. \<not> builds e [] src" and "\<And>src. \<not> builds e src []"
    and "files e ''shaders/main.vert'' = None \<or> files e ''shaders/main.frag'' = None"
  shows "(vertexSource e = [] \<or> fragmentSource e = []) \<and>
         fst (initializeGL e (snd (initializeWindow e initialWorld))) =
           Inl (RuntimeError ''Error creating GL program'') \<and>
         fst (main e) = Uncaught (RuntimeError ''Error creating GL program'') \<and>
         \<not> list_ex isFrameCall (calls (snd (main e)))"
proof -
  have empty: "vertexSource e = [] \<or> fragmentSource e = []"
    using assms(5) by (auto simp: vertexSource_def fragmentSource_def readFile_def)
  then have nok: "\<not> buildOk e"
    unfolding buildOk_def using assms(3,4) by auto
  have "fst (initializeGL e (snd (initializeWindow e initialWorld))) =
      Inl (RuntimeError ''Error creating GL program'')"
    by (simp add: initializeGL_fails[OF initializeWindow_fresh[OF assms(1,2)] nok])
  moreover have "\<not> list_ex isFrameCall (calls (snd (main e)))"
    unfolding main_build_fails_fields(2)[OF assms(1,2) nok] by (rule failure_calls_frame)
  ultimately show ?thesis
    using empty by (simp add: main_build_fails_fields(1)[OF assms(1,2) nok])
qed

theorem unreadable_source_fatal_witness:
  "files (env_ok\<lparr>files := (\<lambda>path. None)\<rparr>) ''shaders/main.vert'' = None \<and>
   vertexSource (env_ok\<lparr>files := (\<lambda>path. None)\<rparr>) = [] \<and>
   fst (initializeGL (env_ok\<lparr>files := (\<lambda>path. None)\<rparr>)
          (snd (initializeWindow (env_ok\<lparr>files := (\<lambda>path. None)\<rparr>) initialWorld))) =
     Inl (RuntimeError ''Error creating GL program'') \<and>
   fst (main (env_ok\<lparr>files := (\<lambda>path. None)\<rparr>)) =
     Uncaught (RuntimeError ''Error creating GL program'')"
  using unreadable_source_fatal[of "env_ok\<lparr>files := (\<lambda>path. None)\<rparr>" 7]
  by (simp add: env_ok_def builds_def vertexSource_def readFile_def c_str_def)

section \<open>The handles of \<^verbatim>\<open>ProgramData\<close>: claim C1\<close>

text \<open>
  The loop touches no GL object: handling an event changes the close flag and the call
  log only, and the rest of an iteration adds to the call log.
\<close>

lemma dispatch_objects:
  "programs (dispatch win ev w) = programs w \<and> vaos (dispatch win ev w) = vaos w"
  by (cases ev) (simp_all add: keyCallback_def Let_def glfwSetWindowShouldClose_def issue_def)

lemma fold_dispatch_objects:
  "programs (fold (dispatch win) evs w) = programs w \<and>
   vaos (fold (dispatch win) evs w) = vaos w"
  by (induction evs arbitrary: w) (simp_all add: dispatch_objects)

lemma frame_objects:
  "programs (frame win pd f w) = programs w \<and> vaos (frame win pd f w) = vaos w"
  by (simp add: frame_eq fold_dispatch_objects)

lemma mainLoop_objects:
  "programs (loopWorld (mainLoop win pd fs w)) = programs w \<and>
   vaos (loopWorld (mainLoop win pd fs w)) = vaos w"
proof (induction fs arbitrary: w)
  case Nil
  show ?case by (simp add: glfwWindowShouldClose_def issue_def)
next
  case (Cons f fs)
  show ?case
  proof (cases "shouldClose w")
    case True
    show ?thesis unfolding mainLoop_flag_set[OF True] by (simp add: issue_def)
  next
    case False
    show ?thesis
      using Cons.IH[of "frame win pd f (issue (GlfwWindowShouldClose win) w)"]
      unfolding mainLoop_step[OF False] by (simp add: frame_objects issue_def)
  qed
qed

text \<open>Nor does the loop make a delete call.\<close>

lemma frame_releases:
  "filter isRelease (calls (frame win pd f w)) = filter isRelease (calls w)"
proof -
  let ?w9 = "w\<lparr>calls := calls w @
          [GlfwGetFramebufferSize win,
           GlViewport 0 0 (fbWidth f) (fbHeight f),
           GlClearColor,
           GlClear GL_COLOR_BUFFER_BIT,
           GlUseProgram (program pd),
           GlBindVertexArray (vao pd),
           GlDrawArrays GL_TRIANGLES 0 (vertexCount pd),
           GlfwSwapBuffers win,
           GlfwPollEvents]\<rparr>"
  obtain k where "calls (fold (dispatch win) (events f) ?w9) =
      calls ?w9 @ replicate k (GlfwSetWindowShouldClose win True)"
    using fold_dispatch_calls by blast
  then have "calls (frame win pd f w) =
      calls ?w9 @ replicate k (GlfwSetWindowShouldClose win True)"
    unfolding frame_eq .
  then show ?thesis by (simp add: filter_empty_conv)
qed

lemma mainLoop_releases:
  "filter isRelease (calls (loopWorld (mainLoop win pd fs w))) = filter isRelease (calls w)"
proof (induction fs arbitrary: w)
  case Nil
  show ?case by (simp add: glfwWindowShouldClose_def issue_def)
next
  case (Cons f fs)
  show ?case
  proof (cases "shouldClose w")
    case True
    show ?thesis unfolding mainLoop_flag_set[OF True] by (simp add: issue_def)
  next
    case False
    show ?thesis
      using Cons.IH[of "frame win pd f (issue (GlfwWindowShouldClose win) w)"]
      unfolding mainLoop_step[OF False] by (simp add: frame_releases issue_def)
  qed
qed

lemma start_calls_releases:
  "filter isRelease
     (bootstrapCalls e @ contextCalls e win @ buildCalls 1 vs fs @ releaseCalls 1 @
      [GlGenVertexArrays, GlBindVertexArray 1, GlBindVertexArray 0]) =
   [GlDeleteShader 1, GlDeleteShader 2]"
  by (simp add: bootstrapCalls_def contextCalls_def buildCalls_def releaseCalls_def)

text \<open>The loop in the sample run: an idle frame, the frame with control+Q, and out.\<close>

lemma sample_loop:
  assumes "\<not> shouldClose w" and "keyHandler w"
  shows "mainLoop win pd (frames env_ok) w =
     Returned (w\<lparr>calls := calls w @
        [GlfwWindowShouldClose win,
         GlfwGetFramebufferSize win, GlViewport 0 0 640 480, GlClearColor,
         GlClear GL_COLOR_BUFFER_BIT, GlUseProgram (program pd), GlBindVertexArray (vao pd),
         GlDrawArrays GL_TRIANGLES 0 (vertexCount pd), GlfwSwapBuffers win, GlfwPollEvents,
         GlfwWindowShouldClose win,
         GlfwGetFramebufferSize win, GlViewport 0 0 800 600, GlClearColor,
         GlClear GL_COLOR_BUFFER_BIT, GlUseProgram (program pd), GlBindVertexArray (vao pd),
         GlDrawArrays GL_TRIANGLES 0 (vertexCount pd), GlfwSwapBuffers win, GlfwPollEvents,
         GlfwSetWindowShouldClose win True,
         GlfwWindowShouldClose win],
       shouldClose := True\<rparr>)"
proof -
  have q: "quitChordPress GLFW_KEY_Q GLFW_PRESS GLFW_MOD_CONTROL"
    by (simp add: quitChordPress_def GLFW_MOD_CONTROL_def)
  have fr: "frames env_ok =
      [\<lparr>fbWidth = 640, fbHeight = 480, events = []\<rparr>,
       \<lparr>fbWidth = 800, fbHeight = 600,
        events = [KeyEvent GLFW_KEY_Q 24 GLFW_PRESS GLFW_MOD_CONTROL]\<rparr>,
       \<lparr>fbWidth = 800, fbHeight = 600, events = []\<rparr>]"
    by (simp add: env_ok_def)
  show ?thesis
    unfolding fr using assms
    by (simp add: glfwWindowShouldClose_def frame_eq issue_def keyCallback_press[OF q])
qed

text \<open>
  Claim C1. Take a run that reaches the frame loop, with the program data
  \<open>(program 3, vertex array 1, count 3)\<close> that \<^verbatim>\<open>initializeGL\<close> returns. When the loop
  starts, program object 3 and vertex array 1 exist. After any number of iterations,
  whatever the frames \<open>fs\<close> bring, the program objects and the vertex arrays are those of
  the start, and the only delete calls made so far are those for the two shaders of the
  build. When the loop has returned, \<^verbatim>\<open>main\<close> runs \<^verbatim>\<open>cleanUp\<close> on the same program data:
  its first call, \<^verbatim>\<open>glfwDestroyWindow\<close>, destroys the context and with it both objects,
  and they are gone when the process ends; the one \<^verbatim>\<open>glDeleteVertexArrays\<close> that follows
  finds no context and changes no object. The program handle has no delete call of its
  own. So each of the two handles is released once, by \<^verbatim>\<open>cleanUp\<close>, after the loop.
\<close>

theorem handles_released_after_loop:
  assumes "glfwInitResult e" and "createWindowResult e = Inr win" and "buildOk e"
  shows "initializeGL e (snd (initializeWindow e initialWorld)) =
           (Inr \<lparr>program = 3, vao = 1, vertexCount = 3\<rparr>, loopStart e) \<and>
         programs (loopStart e) 3 =
           Some \<lparr>linked = True,
                 programLog = linkLog e (stagesOf (vertexSource e) (fragmentSource e))\<rparr> \<and>
         vaos (loopStart e) = {1} \<and>
         programs (loopWorld (mainLoop win \<lparr>program = 3, vao = 1, vertexCount = 3\<rparr> fs (loopStart e))) =
           programs (loopStart e) \<and>
         vaos (loopWorld (mainLoop win \<lparr>program = 3, vao = 1, vertexCount = 3\<rparr> fs (loopStart e))) =
           vaos (loopStart e) \<and>
         filter isRelease
           (calls (loopWorld (mainLoop win \<lparr>program = 3, vao = 1, vertexCount = 3\<rparr> fs (loopStart e)))) =
           [GlDeleteShader 1, GlDeleteShader 2] \<and>
         (\<forall>w3. mainLoop win \<lparr>program = 3, vao = 1, vertexCount = 3\<rparr> (frames e) (loopStart e) =
                 Returned w3 \<longrightarrow>
            main e =
              (Exit EXIT_SUCCESS, snd (cleanUp win \<lparr>program = 3, vao = 1, vertexCount = 3\<rparr> w3)) \<and>
            fst (cleanUp win \<lparr>program = 3, vao = 1, vertexCount = 3\<rparr> w3) =
              \<lparr>program = 3, vao = 1, vertexCount = 3\<rparr> \<and>
            programs w3 3 = programs (loopStart e) 3 \<and>
            vaos w3 = {1} \<and>
            programs (glfwDestroyWindow win w3) 3 = None \<and>
            vaos (glfwDestroyWindow win w3) = {} \<and>
            vaos (glDeleteVertexArrays 1 (glfwDestroyWindow win w3)) = {} \<and>
            programs (snd (main e)) 3 = None \<and>
            vaos (snd (main e)) = {} \<and>
            filter isRelease (calls (snd (main e))) =
              [GlDeleteShader 1, GlDeleteShader 2, GlDeleteVertexArrays 1])"
proof -
  let ?pd = "\<lparr>program = 3, vao = 1, vertexCount = 3\<rparr>"
  note start = loopStart_eq[OF assms]
  have p: "programs (loopStart e) 3 =
      Some \<lparr>linked = True,
            programLog = linkLog e (stagesOf (vertexSource e) (fragmentSource e))\<rparr>"
    and v: "vaos (loopStart e) = {1}"
    by (simp_all add: start)
  have r: "filter isRelease (calls (loopStart e)) = [GlDeleteShader 1, GlDeleteShader 2]"
    using start_calls_releases[of e win "vertexSource e" "fragmentSource e"]
    by (simp add: start)
  have after: "main e = (Exit EXIT_SUCCESS, snd (cleanUp win ?pd w3)) \<and>
      fst (cleanUp win ?pd w3) = ?pd \<and>
      programs w3 3 = programs (loopStart e) 3 \<and>
      vaos w3 = {1} \<and>
      programs (glfwDestroyWindow win w3) 3 = None \<and>
      vaos (glfwDestroyWindow win w3) = {} \<and>
      vaos (glDeleteVertexArrays 1 (glfwDestroyWindow win w3)) = {} \<and>
      programs (snd (main e)) 3 = None \<and>
      vaos (snd (main e)) = {} \<and>
      filter isRelease (calls (snd (main e))) =
        [GlDeleteShader 1, GlDeleteShader 2, GlDeleteVertexArrays 1]"
    if ret: "mainLoop win ?pd (frames e) (loopStart e) = Returned w3" for w3
  proof -
    have m: "main e = (Exit EXIT_SUCCESS, snd (cleanUp win ?pd w3))"
      unfolding main_ok[OF assms] ret by simp
    have o: "programs w3 = programs (loopStart e)" "vaos w3 = vaos (loopStart e)"
      using mainLoop_objects[of win ?pd "frames e" "loopStart e"] unfolding ret by simp_all
    have c: "filter isRelease (calls w3) = [GlDeleteShader 1, GlDeleteShader 2]"
      using mainLoop_releases[of win ?pd "frames e" "loopStart e"] unfolding ret by (simp add: r)
    show ?thesis
      unfolding m
      by (simp add: cleanUp_eq o v c glfwDestroyWindow_def glDeleteVertexArrays_def
          destroyContext_def issue_def)
  qed
  have during: "programs (loopWorld (mainLoop win ?pd fs (loopStart e))) = programs (loopStart e)"
    "vaos (loopWorld (mainLoop win ?pd fs (loopStart e))) = vaos (loopStart e)"
    "filter isRelease (calls (loopWorld (mainLoop win ?pd fs (loopStart e)))) =
       [GlDeleteShader 1, GlDeleteShader 2]"
    by (simp_all only: mainLoop_objects mainLoop_releases r)
  show ?thesis
    using initializeGL_start_ok[OF assms] p v during after by blast
qed

theorem handles_released_after_loop_witness:
  "programs (loopStart env_ok) 3 = Some \<lparr>linked = True, programLog = []\<rparr> \<and>
   vaos (loopStart env_ok) = {1} \<and>
   fst (main env_ok) = Exit EXIT_SUCCESS \<and>
   programs (snd (main env_ok)) 3 = None \<and>
   vaos (snd (main env_ok)) = {} \<and>
   filter isRelease (calls (snd (main env_ok))) =
     [GlDeleteShader 1, GlDeleteShader 2, GlDeleteVertexArrays 1]"
proof -
  let ?pd = "\<lparr>program = 3, vao = 1, vertexCount = 3\<rparr>"
  have i: "glfwInitResult env_ok" and c: "createWindowResult env_ok = Inr 7"
    and ll: "linkLog env_ok = (\<lambda>stages. [])"
    by (simp_all add: env_ok_def)
  have ok: "buildOk env_ok"
    by (simp add: buildOk_def builds_def vertexSource_def fragmentSource_def stagesOf_def
        c_str_def env_ok_def readFile_def readLoop_closed withFinalNewline_def NL_def)
  have sc: "\<not> shouldClose (loopStart env_ok)" and kh: "keyHandler (loopStart env_ok)"
    by (simp_all add: loopStart_eq[OF i c ok] initialWorld_def)
  note run = handles_released_after_loop[OF i c ok, of "frames env_ok"]
  obtain w3 where ret: "mainLoop 7 ?pd (frames env_ok) (loopStart env_ok) = Returned w3"
    using sample_loop[OF sc kh] by blast
  from run ret have m: "main env_ok = (Exit EXIT_SUCCESS, snd (cleanUp 7 ?pd w3))"
    and gone: "programs (snd (main env_ok)) 3 = None" "vaos (snd (main env_ok)) = {}"
    and rel: "filter isRelease (calls (snd (main env_ok))) =
      [GlDeleteShader 1, GlDeleteShader 2, GlDeleteVertexArrays 1]"
    by blast+
  from run have there: "programs (loopStart env_ok) 3 =
      Some \<lparr>linked = True,
        programLog = linkLog env_ok (stagesOf (vertexSource env_ok) (fragmentSource env_ok))\<rparr>"
    "vaos (loopStart env_ok) = {1}"
    by blast+
  have "fst (main env_ok) = Exit EXIT_SUCCESS" unfolding m by simp
  then show ?thesis using gone rel there by (simp add: ll)
qed

end
